theory Spec2Isabelle
  imports Complex_Main "HOL-Library.Multiset" "HOL-Library.AList"
begin

section \<open>The client state store (store/main.tsx)\<close>

text \<open>
  The zustand store of the single-page application. Every interface of the source is a
  record; a field of type \<open>T | null\<close> is a \<open>T option\<close>; a JavaScript \<open>number\<close> that
  holds a score is a rational, one that holds a count or a time stamp is an integer.
  Several interfaces of the source share field names (\<open>loading\<close>, \<open>error\<close>, \<open>items\<close>,
  \<open>name\<close>, ...); a record field is a constant of the theory, so the fields of every
  interface but \<open>FiltersState\<close> and \<open>AppState\<close> carry the interface as a prefix.
\<close>

type_synonym number = rat

record AuthState =
  auth_is_authenticated :: bool
  auth_user_id :: "string option"
  auth_username :: "string option"
  auth_email :: "string option"
  auth_access_token :: "string option"
  auth_token_expiration :: "int option"
  auth_loading :: bool
  auth_error :: "string option"

record ProductCard =
  card_product_id :: string
  card_name :: string
  card_brand_name :: string
  card_primary_image_url :: string
  card_overall_score :: "number option"
  card_sustainability_score :: "number option"
  card_ethical_score :: "number option"
  card_durability_score :: "number option"

record PaginationInfo =
  pagination_currentPage :: int
  pagination_pageSize :: int
  pagination_totalPages :: int
  pagination_totalProducts :: int

record ProductsState =
  products_items :: "ProductCard list"
  products_pagination :: PaginationInfo
  products_loading :: bool
  products_error :: "string option"

record FiltersState =
  search_term :: "string option"
  category_id :: "string option"
  brand_name :: "string option"
  min_sustainability_score :: "number option"
  min_ethical_score :: "number option"
  min_durability_score :: "number option"
  attribute_ids :: "string list"
  sort_by :: "string option"
  sort_order :: "string option"

record Category =
  cat_category_id :: string
  cat_name :: string
  cat_description :: "string option"

record CategoriesState =
  categories_items :: "Category list"
  categories_loading :: bool
  categories_error :: "string option"

datatype attribute_type = sustainability | ethical | durability

record Attribute =
  attr_attribute_id :: string
  attr_name :: string
  attr_attribute_type :: attribute_type

record AttributesState =
  attributes_items :: "Attribute list"
  attributes_loading :: bool
  attributes_error :: "string option"

datatype notification_type = info | success | warning | error

record NotificationState =
  notif_message :: "string option"
  notif_type :: notification_type
  notif_visible :: bool

text \<open>The data part of \<open>AppState\<close>; the actions are the functions below.\<close>

record AppState =
  auth :: AuthState
  products :: ProductsState
  filters :: FiltersState
  categories :: CategoriesState
  attributes :: AttributesState
  notifications :: NotificationState

text \<open>The initial state of the store.\<close>

definition initial_state :: AppState where
  "initial_state =
     \<lparr>auth = \<lparr>auth_is_authenticated = False, auth_user_id = None, auth_username = None,
              auth_email = None, auth_access_token = None, auth_token_expiration = None,
              auth_loading = True, auth_error = None\<rparr>,
      products = \<lparr>products_items = [],
                  products_pagination =
                    \<lparr>pagination_currentPage = 1, pagination_pageSize = 20,
                     pagination_totalPages = 0, pagination_totalProducts = 0\<rparr>,
                  products_loading = False, products_error = None\<rparr>,
      filters = \<lparr>search_term = None, category_id = None, brand_name = None,
                 min_sustainability_score = None, min_ethical_score = None,
                 min_durability_score = None, attribute_ids = [], sort_by = None,
                 sort_order = None\<rparr>,
      categories = \<lparr>categories_items = [], categories_loading = False,
                    categories_error = None\<rparr>,
      attributes = \<lparr>attributes_items = [], attributes_loading = False,
                    attributes_error = None\<rparr>,
      notifications = \<lparr>notif_message = None, notif_type = info, notif_visible = False\<rparr>\<rparr>"

text \<open>
  \<open>set_search_term\<close>: \<open>set((state) => ({ filters: { ...state.filters, search_term: term,
  category_id: null, brand_name: null, attribute_ids: [], min_sustainability_score: null,
  min_ethical_score: null, min_durability_score: null } }))\<close>. zustand merges the returned
  object into the state: only the \<open>filters\<close> slice is replaced.
\<close>

definition set_search_term :: "string option \<Rightarrow> AppState \<Rightarrow> AppState" where
  "set_search_term term state =
     state\<lparr>filters := (filters state)\<lparr>search_term := term, category_id := None,
       brand_name := None, attribute_ids := [], min_sustainability_score := None,
       min_ethical_score := None, min_durability_score := None\<rparr>\<rparr>"

text \<open>
  \<open>toggle_attribute_filter\<close>: \<open>current_attributes.includes(attribute_id) ?
  current_attributes.filter((id) => id !== attribute_id) : [...current_attributes,
  attribute_id]\<close>.
\<close>

definition toggle_attribute_filter :: "string \<Rightarrow> AppState \<Rightarrow> AppState" where
  "toggle_attribute_filter attribute_id state =
     (let current_attributes = attribute_ids (filters state);
          updated_attributes =
            (if attribute_id \<in> set current_attributes
             then filter (\<lambda>id. id \<noteq> attribute_id) current_attributes
             else current_attributes @ [attribute_id])
      in state\<lparr>filters := (filters state)\<lparr>attribute_ids := updated_attributes\<rparr>\<rparr>)"

section \<open>The review submission form (UV_ReviewSubmission.tsx)\<close>

text \<open>
  A JavaScript string is a \<open>string\<close>; the characters are the code points up to U+00FF.
  \<open>String.prototype.trim\<close> removes white space and line terminators from both ends: in
  this range TAB, LF, VT, FF, CR, SPACE and NBSP.
\<close>

definition is_js_whitespace :: "char \<Rightarrow> bool" where
  "is_js_whitespace c = (of_char c \<in> {9, 10, 11, 12, 13, 32, 160 :: nat})"

definition trim :: "string \<Rightarrow> string" where
  "trim s = rev (dropWhile is_js_whitespace (rev (dropWhile is_js_whitespace s)))"

record File =
  file_name :: string
  file_type :: string
  file_size :: nat

record UploadedFileWithUrl =
  photo_file :: File
  photo_url :: string

datatype feedback_type = Info | Success | Error

record SubmissionFeedback =
  fb_message :: "string option"
  fb_type :: feedback_type

text \<open>
  \<open>ValidationErrors\<close> is an object used as a dictionary from field names to messages: an
  association list in insertion order, written with \<open>AList.update\<close> and read with
  \<open>map_of\<close>. A message that is absent or the empty string is falsy.
\<close>

type_synonym ValidationErrors = "(string \<times> string) list"

definition has_error :: "ValidationErrors \<Rightarrow> string \<Rightarrow> bool" where
  "has_error errors field =
     (case map_of errors field of None \<Rightarrow> False | Some msg \<Rightarrow> msg \<noteq> [])"

text \<open>
  The local state of the component that the handlers below read or write
  (\<open>product_name\<close> is only displayed, and \<open>preview_photo_urls\<close> is never added to).
\<close>

record ReviewForm =
  review_title :: string
  review_body :: string
  overall_rating :: "number option"
  sustainability_rating :: "number option"
  ethical_rating :: "number option"
  durability_rating :: "number option"
  confirmation_checkbox :: bool
  uploaded_photos_state :: "UploadedFileWithUrl list"
  is_submitting :: bool
  validation_errors :: ValidationErrors
  submission_feedback :: SubmissionFeedback

definition initial_form :: ReviewForm where
  "initial_form =
     \<lparr>review_title = [], review_body = [], overall_rating = None,
      sustainability_rating = None, ethical_rating = None, durability_rating = None,
      confirmation_checkbox = False, uploaded_photos_state = [], is_submitting = False,
      validation_errors = [], submission_feedback = \<lparr>fb_message = None, fb_type = Info\<rparr>\<rparr>"

text \<open>
  \<open>StarRating\<close>: \<open>stars = Array.from({ length: maxRating }, (_, i) => i + 1)\<close>; a click on
  a star calls \<open>onRatingChange(star)\<close>. The form never passes \<open>maxRating\<close>, so it is 5.
\<close>

definition stars :: "nat \<Rightarrow> number list" where
  "stars maxRating = map (\<lambda>i. of_nat i + 1) [0..<maxRating]"

definition maxRating_default :: nat where
  "maxRating_default = 5"

definition clear_error :: "string \<Rightarrow> ReviewForm \<Rightarrow> ReviewForm" where
  "clear_error field s =
     (if has_error (validation_errors s) field
      then s\<lparr>validation_errors := AList.update field [] (validation_errors s)\<rparr> else s)"

definition handleTitleChange :: "string \<Rightarrow> ReviewForm \<Rightarrow> ReviewForm" where
  "handleTitleChange v s = clear_error ''title'' (s\<lparr>review_title := v\<rparr>)"

definition handleBodyChange :: "string \<Rightarrow> ReviewForm \<Rightarrow> ReviewForm" where
  "handleBodyChange v s = clear_error ''body'' (s\<lparr>review_body := v\<rparr>)"

definition handleOverallRatingChange :: "number \<Rightarrow> ReviewForm \<Rightarrow> ReviewForm" where
  "handleOverallRatingChange ratingValue s =
     clear_error ''overall_rating'' (s\<lparr>overall_rating := Some ratingValue\<rparr>)"

datatype rating_field = sustainability_rating_field | ethical_rating_field | durability_rating_field

fun handleAnyRatingChange :: "rating_field \<Rightarrow> number \<Rightarrow> ReviewForm \<Rightarrow> ReviewForm" where
  "handleAnyRatingChange sustainability_rating_field ratingValue s =
     s\<lparr>sustainability_rating := Some ratingValue\<rparr>"
| "handleAnyRatingChange ethical_rating_field ratingValue s =
     s\<lparr>ethical_rating := Some ratingValue\<rparr>"
| "handleAnyRatingChange durability_rating_field ratingValue s =
     s\<lparr>durability_rating := Some ratingValue\<rparr>"

definition toggleConfirmation :: "ReviewForm \<Rightarrow> ReviewForm" where
  "toggleConfirmation s =
     clear_error ''confirmation_checkbox''
       (s\<lparr>confirmation_checkbox := \<not> confirmation_checkbox s\<rparr>)"

text \<open>\<open>photoUploadMutation.onSuccess\<close>.\<close>

definition photo_uploaded :: "File \<Rightarrow> string \<Rightarrow> ReviewForm \<Rightarrow> ReviewForm" where
  "photo_uploaded file url s =
     s\<lparr>uploaded_photos_state := uploaded_photos_state s @ [\<lparr>photo_file = file, photo_url = url\<rparr>],
       validation_errors := AList.update ''photos'' [] (validation_errors s)\<rparr>"

text \<open>
  \<open>photoUploadMutation.onError\<close> and the \<open>onError\<close> of the product query, when they do
  not leave for the login page: both only write the feedback.
\<close>

definition photo_upload_failed :: "string \<Rightarrow> ReviewForm \<Rightarrow> ReviewForm" where
  "photo_upload_failed errorMessage s =
     s\<lparr>submission_feedback :=
         \<lparr>fb_message = Some (''Photo upload failed: '' @ errorMessage), fb_type = Error\<rparr>\<rparr>"

definition product_info_failed :: "string \<Rightarrow> ReviewForm \<Rightarrow> ReviewForm" where
  "product_info_failed errorMessage s =
     s\<lparr>submission_feedback :=
         \<lparr>fb_message = Some (''Error: '' @ errorMessage), fb_type = Error\<rparr>\<rparr>"

definition handleRemovePhoto :: "string \<Rightarrow> ReviewForm \<Rightarrow> ReviewForm" where
  "handleRemovePhoto urlToRemove s =
     s\<lparr>uploaded_photos_state :=
         filter (\<lambda>photo. photo_url photo \<noteq> urlToRemove) (uploaded_photos_state s)\<rparr>"

subsection \<open>Selecting photo files\<close>

definition allowedTypes :: "string list" where
  "allowedTypes = [''image/jpeg'', ''image/png'', ''image/gif'']"

definition maxSize :: nat where
  "maxSize = 5 * 1024 * 1024"

text \<open>
  The body of the first \<open>files.forEach\<close>: the loop state is \<open>hasInvalidFile\<close> and the
  feedback that \<open>set_submission_feedback\<close> wrote last.
\<close>

definition check_file :: "File \<Rightarrow> bool \<times> SubmissionFeedback \<Rightarrow> bool \<times> SubmissionFeedback" where
  "check_file file st =
     (if file_type file \<notin> set allowedTypes
      then (True, \<lparr>fb_message = Some (''Invalid file type for '' @ file_name file
                      @ ''. Only JPG, PNG, GIF are allowed.''), fb_type = Error\<rparr>)
      else if file_size file > maxSize
      then (True, \<lparr>fb_message = Some (file_name file @ '' exceeds the 5MB size limit.''),
                   fb_type = Error\<rparr>)
      else st)"

text \<open>
  \<open>handleFileSelect\<close> returns the new form state and the files handed to
  \<open>photoUploadMutation.mutate\<close>, each of which is one POST to \<open>/api/upload/photo\<close>.
\<close>

definition handleFileSelect :: "File list \<Rightarrow> ReviewForm \<Rightarrow> ReviewForm \<times> File list" where
  "handleFileSelect files s =
     (if length files = 0 then (s, [])
      else
        (let (hasInvalidFile, feedback) = fold check_file files (False, submission_feedback s);
             s' = s\<lparr>submission_feedback := feedback\<rparr>
         in if hasInvalidFile then (s', []) else (s', files)))"

subsection \<open>Submitting the review\<close>

record ReviewSubmissionPayload =
  payload_title :: string
  payload_body :: string
  payload_overall_rating :: "number option"
  payload_sustainability_rating :: "number option"
  payload_ethical_rating :: "number option"
  payload_durability_rating :: "number option"
  payload_photos :: "UploadedFileWithUrl list"
  payload_confirmation_checkbox :: bool

text \<open>
  A value appended to the multipart form: a string, \<open>String(n)\<close> of a number or of
  \<open>null\<close>, or a file.
\<close>

datatype form_value = Text string | StringOfNumber number | StringOfNull | Binary File

text \<open>
  \<open>submitNewReview\<close> builds the form data, then rejects without a network call when the
  confirmation flag is false, and otherwise POSTs the form data to
  \<open>/api/products/${productId}/reviews\<close>: \<open>Inl\<close> is the rejection's error message,
  \<open>Inr\<close> the body of the request that is sent.
\<close>

definition submitNewReview :: "ReviewSubmissionPayload \<Rightarrow> string + (string \<times> form_value) list" where
  "submitNewReview reviewData =
     (let formData =
            [(''title'', Text (payload_title reviewData)),
             (''body'', Text (payload_body reviewData)),
             (''overall_rating'',
                (case payload_overall_rating reviewData of
                   None \<Rightarrow> StringOfNull | Some r \<Rightarrow> StringOfNumber r))]
            @ (case payload_sustainability_rating reviewData of
                 None \<Rightarrow> [] | Some r \<Rightarrow> [(''sustainability_rating'', StringOfNumber r)])
            @ (case payload_ethical_rating reviewData of
                 None \<Rightarrow> [] | Some r \<Rightarrow> [(''ethical_rating'', StringOfNumber r)])
            @ (case payload_durability_rating reviewData of
                 None \<Rightarrow> [] | Some r \<Rightarrow> [(''durability_rating'', StringOfNumber r)])
            @ map (\<lambda>photo. (''photos'', Binary (photo_file photo))) (payload_photos reviewData)
      in if \<not> payload_confirmation_checkbox reviewData
         then Inl ''You must confirm you have personally used this product.''
         else Inr formData)"

text \<open>The callbacks of \<open>reviewSubmissionMutation\<close>, as far as they write the form state.\<close>

definition onMutate :: "ReviewForm \<Rightarrow> ReviewForm" where
  "onMutate s =
     s\<lparr>is_submitting := True, validation_errors := [],
       submission_feedback := \<lparr>fb_message = None, fb_type = Info\<rparr>\<rparr>"

definition onSuccess :: "string option \<Rightarrow> ReviewForm \<Rightarrow> ReviewForm" where
  "onSuccess message s =
     s\<lparr>is_submitting := False,
       submission_feedback :=
         \<lparr>fb_message = Some (case message of
              None \<Rightarrow> ''Review submitted successfully and is pending moderation.''
            | Some m \<Rightarrow> if m = [] then ''Review submitted successfully and is pending moderation.''
                        else m),
          fb_type = Success\<rparr>,
       review_title := [], review_body := [], overall_rating := None,
       sustainability_rating := None, ethical_rating := None, durability_rating := None,
       confirmation_checkbox := False, uploaded_photos_state := []\<rparr>"

definition onError :: "ValidationErrors option \<Rightarrow> string option \<Rightarrow> ReviewForm \<Rightarrow> ReviewForm" where
  "onError response_errors response_error s =
     (let s1 = s\<lparr>is_submitting := False\<rparr>
      in case response_errors of
           Some errors \<Rightarrow> s1\<lparr>validation_errors := errors\<rparr>
         | None \<Rightarrow>
             if response_error = Some ''You must confirm you have personally used this product.''
             then s1\<lparr>validation_errors :=
                       [(''confirmation_checkbox'',
                         ''You must confirm you have personally used this product.'')]\<rparr>
             else s1\<lparr>submission_feedback :=
                       \<lparr>fb_message = Some (''Error: '' @
                           (case response_error of
                              None \<Rightarrow> ''An unexpected error occurred. Please try again.''
                            | Some e \<Rightarrow> if e = []
                                then ''An unexpected error occurred. Please try again.'' else e)),
                        fb_type = Error\<rparr>\<rparr>)"

text \<open>
  \<open>handleSubmit\<close> returns the new form state and the argument of
  \<open>reviewSubmissionMutation.mutate\<close>, if it is called. The non-null assertion
  \<open>overall_rating!\<close> is erased at run time, so the payload carries the state's value.
\<close>

definition handleSubmit :: "ReviewForm \<Rightarrow> ReviewForm \<times> ReviewSubmissionPayload option" where
  "handleSubmit s =
     (let errors0 = [] :: ValidationErrors;
          errors1 = (if trim (review_title s) = []
                     then AList.update ''title'' ''Review title is required.'' errors0
                     else errors0);
          errors2 = (if trim (review_body s) = []
                     then AList.update ''body'' ''Review body cannot be empty.'' errors1
                     else errors1);
          errors3 = (if (case overall_rating s of None \<Rightarrow> True | Some r \<Rightarrow> r < 1 \<or> r > 5)
                     then AList.update ''overall_rating'' ''Please provide an overall rating.'' errors2
                     else errors2);
          errors4 = (if \<not> confirmation_checkbox s
                     then AList.update ''confirmation_checkbox''
                            ''You must confirm you have personally used this product.'' errors3
                     else errors3)
      in if length errors4 > 0 then (s\<lparr>validation_errors := errors4\<rparr>, None)
         else (onMutate s,
               Some \<lparr>payload_title = trim (review_title s),
                     payload_body = trim (review_body s),
                     payload_overall_rating = overall_rating s,
                     payload_sustainability_rating = sustainability_rating s,
                     payload_ethical_rating = ethical_rating s,
                     payload_durability_rating = durability_rating s,
                     payload_photos = uploaded_photos_state s,
                     payload_confirmation_checkbox = confirmation_checkbox s\<rparr>))"

text \<open>
  The request that a submit of the form sends: \<open>mutate\<close> runs \<open>mutationFn\<close>, which is
  \<open>submitNewReview\<close>. \<open>None\<close>: no request is made.
\<close>

definition submit_request :: "ReviewForm \<Rightarrow> (string \<times> form_value) list option" where
  "submit_request s =
     (case snd (handleSubmit s) of
        None \<Rightarrow> None
      | Some reviewData \<Rightarrow>
          (case submitNewReview reviewData of Inl _ \<Rightarrow> None | Inr formData \<Rightarrow> Some formData))"

text \<open>
  The states of the form: the state at mount, and every state that a handler or a
  mutation callback of the component produces from one. A rating is only ever set by a
  click on one of the stars of a \<open>StarRating\<close>.
\<close>

inductive form_state :: "ReviewForm \<Rightarrow> bool" where
  mount: "form_state initial_form"
| title_change: "form_state s \<Longrightarrow> form_state (handleTitleChange v s)"
| body_change: "form_state s \<Longrightarrow> form_state (handleBodyChange v s)"
| overall_click: "form_state s \<Longrightarrow> star \<in> set (stars maxRating_default) \<Longrightarrow>
     form_state (handleOverallRatingChange star s)"
| sub_rating_click: "form_state s \<Longrightarrow> star \<in> set (stars maxRating_default) \<Longrightarrow>
     form_state (handleAnyRatingChange field star s)"
| confirmation_toggle: "form_state s \<Longrightarrow> form_state (toggleConfirmation s)"
| file_select: "form_state s \<Longrightarrow> form_state (fst (handleFileSelect files s))"
| upload_success: "form_state s \<Longrightarrow> form_state (photo_uploaded file url s)"
| upload_error: "form_state s \<Longrightarrow> form_state (photo_upload_failed errorMessage s)"
| product_error: "form_state s \<Longrightarrow> form_state (product_info_failed errorMessage s)"
| remove_photo: "form_state s \<Longrightarrow> form_state (handleRemovePhoto url s)"
| submit: "form_state s \<Longrightarrow> form_state (fst (handleSubmit s))"
| submit_success: "form_state s \<Longrightarrow> form_state (onSuccess message s)"
| submit_error: "form_state s \<Longrightarrow> form_state (onError response_errors response_error s)"

section \<open>The search results view (UV_SearchResults)\<close>

subsection \<open>Built-ins of the platform\<close>

text \<open>
  \<open>URLSearchParams\<close> is a list of name-value pairs. \<open>get\<close> returns the first value of a
  name, \<open>delete\<close> removes every pair of a name, \<open>set\<close> overwrites the first pair of a
  name and removes the others, or appends. The text of \<open>location.search\<close> is the
  serialisation of this list and parses back to it, so the list itself stands for it.
\<close>

type_synonym URLSearchParams = "(string \<times> string) list"

definition get_param :: "URLSearchParams \<Rightarrow> string \<Rightarrow> string option" where
  "get_param params key = map_of params key"

definition delete_param :: "string \<Rightarrow> URLSearchParams \<Rightarrow> URLSearchParams" where
  "delete_param key params = filter (\<lambda>(k, v). k \<noteq> key) params"

fun set_param :: "string \<Rightarrow> string \<Rightarrow> URLSearchParams \<Rightarrow> URLSearchParams" where
  "set_param key val [] = [(key, val)]"
| "set_param key val ((k, v) # params) =
     (if k = key then (key, val) # delete_param key params
      else (k, v) # set_param key val params)"

text \<open>\<open>Array.prototype.join\<close> and \<open>String.prototype.split\<close> with a one-character separator.\<close>

fun join :: "string \<Rightarrow> string list \<Rightarrow> string" where
  "join sep [] = []"
| "join sep [x] = x"
| "join sep (x # y # ys) = x @ sep @ join sep (y # ys)"

fun split_from :: "char \<Rightarrow> string \<Rightarrow> string \<Rightarrow> string list" where
  "split_from sep acc [] = [rev acc]"
| "split_from sep acc (c # cs) =
     (if c = sep then rev acc # split_from sep [] cs else split_from sep (c # acc) cs)"

definition split :: "char \<Rightarrow> string \<Rightarrow> string list" where
  "split sep s = split_from sep [] s"

text \<open>
  \<open>Number.prototype.toString\<close> and \<open>parseInt(_, 10)\<close> on integers. Both are exact
  here; in JavaScript they are exact on the safe integers, below \<open>2 ^ 53\<close> in
  absolute value. \<open>parseInt\<close> skips leading white space, reads an optional sign and the
  longest prefix of decimal digits, and is \<open>NaN\<close> (here \<open>None\<close>) if there is no digit.
\<close>

definition digit_char :: "nat \<Rightarrow> char" where
  "digit_char d = char_of (48 + d)"

fun nat_digits :: "nat \<Rightarrow> string" where
  "nat_digits n = (if n < 10 then [digit_char n] else nat_digits (n div 10) @ [digit_char (n mod 10)])"

declare nat_digits.simps [simp del]

definition number_toString :: "int \<Rightarrow> string" where
  "number_toString n = (if n < 0 then CHR ''-'' # nat_digits (nat (- n)) else nat_digits (nat n))"

definition is_digit :: "char \<Rightarrow> bool" where
  "is_digit c = (48 \<le> (of_char c :: nat) \<and> (of_char c :: nat) \<le> 57)"

definition digit_value :: "char \<Rightarrow> nat" where
  "digit_value c = of_char c - 48"

definition parseInt :: "string \<Rightarrow> int option" where
  "parseInt string =
     (let S = dropWhile is_js_whitespace string;
          sign = (case S of c # _ \<Rightarrow> if c = CHR ''-'' then - 1 else 1 | [] \<Rightarrow> (1 :: int));
          S' = (case S of c # rest \<Rightarrow> if c = CHR ''-'' \<or> c = CHR ''+'' then rest else S | [] \<Rightarrow> S);
          Z = takeWhile is_digit S'
      in if Z = [] then None
         else Some (sign * int (foldl (\<lambda>acc c. 10 * acc + digit_value c) 0 Z)))"

subsection \<open>The filter, sort and pagination state\<close>

text \<open>
  The local state of the view. The three scores are JavaScript numbers other than
  \<open>NaN\<close> (no handler stores \<open>NaN\<close>); their type \<open>'n\<close> and the two conversions
  \<open>toString :: 'n \<Rightarrow> string\<close> and \<open>parseFloat :: string \<Rightarrow> 'n option\<close> (\<open>None\<close> for
  \<open>NaN\<close>) are parameters of the model. \<open>currentPage\<close> is an integer.
\<close>

datatype sort_direction = asc | desc

fun sort_direction_string :: "sort_direction \<Rightarrow> string" where
  "sort_direction_string asc = ''asc''"
| "sort_direction_string desc = ''desc''"

record 'n SearchState =
  searchTerm :: "string option"
  selectedCategory :: "string option"
  selectedBrand :: "string option"
  selectedSustainabilityScore :: "'n option"
  selectedEthicalScore :: "'n option"
  selectedDurabilityScore :: "'n option"
  selectedAttributes :: "string list"
  sortBy :: "string option"
  sortOrder :: "sort_direction option"
  currentPage :: int

text \<open>\<open>x || null\<close> and \<open>x || ''\<close> on a string or null.\<close>

definition or_null :: "string option \<Rightarrow> string option" where
  "or_null x = (case x of None \<Rightarrow> None | Some v \<Rightarrow> if v = [] then None else Some v)"

definition or_string :: "string option \<Rightarrow> string \<Rightarrow> string" where
  "or_string x d = (case x of None \<Rightarrow> d | Some v \<Rightarrow> if v = [] then d else v)"

definition valid_sort_order :: "string option \<Rightarrow> sort_direction option" where
  "valid_sort_order order =
     (if order = Some ''asc'' then Some asc else if order = Some ''desc'' then Some desc else None)"

text \<open>The \<open>useState\<close> initialisers: the state of the view when it mounts on a URL.\<close>

definition initial_search_state :: "(string \<Rightarrow> 'n option) \<Rightarrow> URLSearchParams \<Rightarrow> 'n SearchState" where
  "initial_search_state parseFloat searchParams =
     \<lparr>searchTerm = or_null (get_param searchParams ''q''),
      selectedCategory = or_null (get_param searchParams ''category_id''),
      selectedBrand = or_null (get_param searchParams ''brand_name''),
      selectedSustainabilityScore =
        parseFloat (or_string (get_param searchParams ''min_sustainability_score'') []),
      selectedEthicalScore =
        parseFloat (or_string (get_param searchParams ''min_ethical_score'') []),
      selectedDurabilityScore =
        parseFloat (or_string (get_param searchParams ''min_durability_score'') []),
      selectedAttributes =
        (case or_null (get_param searchParams ''attribute_ids'') of
           Some attrParam \<Rightarrow> split CHR '','' attrParam | None \<Rightarrow> []),
      sortBy = or_null (get_param searchParams ''sort_by''),
      sortOrder = valid_sort_order (get_param searchParams ''sort_order''),
      currentPage =
        (case parseInt (or_string (get_param searchParams ''page'') ''1'') of
           Some page \<Rightarrow> page | None \<Rightarrow> 1)\<rparr>"

text \<open>
  The effect that writes the URL. \<open>updateParam\<close> sets a value that is neither null,
  undefined nor the empty string, and deletes the name otherwise.
\<close>

definition updateParam :: "string \<Rightarrow> string option \<Rightarrow> URLSearchParams \<Rightarrow> URLSearchParams" where
  "updateParam key val currentParams =
     (case val of
        Some v \<Rightarrow> if v \<noteq> [] then set_param key v currentParams
                  else delete_param key currentParams
      | None \<Rightarrow> delete_param key currentParams)"

definition write_url :: "('n \<Rightarrow> string) \<Rightarrow> 'n SearchState \<Rightarrow> URLSearchParams \<Rightarrow> URLSearchParams" where
  "write_url toString s currentParams =
     (let p1 = updateParam ''q'' (searchTerm s) currentParams;
          p2 = updateParam ''category_id'' (selectedCategory s) p1;
          p3 = updateParam ''brand_name'' (selectedBrand s) p2;
          p4 = updateParam ''min_sustainability_score''
                 (map_option toString (selectedSustainabilityScore s)) p3;
          p5 = updateParam ''min_ethical_score'' (map_option toString (selectedEthicalScore s)) p4;
          p6 = updateParam ''min_durability_score''
                 (map_option toString (selectedDurabilityScore s)) p5;
          p7 = updateParam ''attribute_ids''
                 (if length (selectedAttributes s) > 0
                  then Some (join '','' (selectedAttributes s)) else None) p6;
          p8 = updateParam ''sort_by'' (sortBy s) p7;
          p9 = updateParam ''sort_order'' (map_option sort_direction_string (sortOrder s)) p8
      in updateParam ''page''
           (if currentPage s > 1 then Some (number_toString (currentPage s)) else None) p9)"

text \<open>The effect that reads the URL into the state; each setter runs only on a change.\<close>

definition read_score :: "(string \<Rightarrow> 'n option) \<Rightarrow> string option \<Rightarrow> 'n option \<Rightarrow> 'n option" where
  "read_score parseFloat scoreParam selectedScore =
     (let currentScore = parseFloat (or_string scoreParam [])
      in if currentScore \<noteq> None \<and> currentScore \<noteq> selectedScore then currentScore
         else if scoreParam = None \<and> selectedScore \<noteq> None then None
         else selectedScore)"

definition read_url :: "(string \<Rightarrow> 'n option) \<Rightarrow> URLSearchParams \<Rightarrow> 'n SearchState \<Rightarrow> 'n SearchState" where
  "read_url parseFloat urlSearchParams s =
     (let urlAttributeIds =
            (case or_null (get_param urlSearchParams ''attribute_ids'') of
               Some attributeIdsParam \<Rightarrow> split CHR '','' attributeIdsParam | None \<Rightarrow> []);
          validSo = valid_sort_order (get_param urlSearchParams ''sort_order'');
          pageNum = parseInt (or_string (get_param urlSearchParams ''page'') ''1'')
      in s\<lparr>searchTerm :=
             (if get_param urlSearchParams ''q'' \<noteq> searchTerm s
              then get_param urlSearchParams ''q'' else searchTerm s),
           selectedCategory :=
             (if get_param urlSearchParams ''category_id'' \<noteq> selectedCategory s
              then get_param urlSearchParams ''category_id'' else selectedCategory s),
           selectedBrand :=
             (if get_param urlSearchParams ''brand_name'' \<noteq> selectedBrand s
              then get_param urlSearchParams ''brand_name'' else selectedBrand s),
           selectedSustainabilityScore :=
             read_score parseFloat (get_param urlSearchParams ''min_sustainability_score'')
               (selectedSustainabilityScore s),
           selectedEthicalScore :=
             read_score parseFloat (get_param urlSearchParams ''min_ethical_score'')
               (selectedEthicalScore s),
           selectedDurabilityScore :=
             read_score parseFloat (get_param urlSearchParams ''min_durability_score'')
               (selectedDurabilityScore s),
           selectedAttributes :=
             (if urlAttributeIds \<noteq> selectedAttributes s then urlAttributeIds
              else selectedAttributes s),
           sortBy :=
             (if get_param urlSearchParams ''sort_by'' \<noteq> sortBy s
              then get_param urlSearchParams ''sort_by'' else sortBy s),
           sortOrder := (if validSo \<noteq> sortOrder s then validSo else sortOrder s),
           currentPage :=
             (case pageNum of
                Some n \<Rightarrow> if n \<noteq> currentPage s then n else currentPage s
              | None \<Rightarrow> currentPage s)\<rparr>)"


section \<open>The REST API (backend/openapi.yaml) and the database schema\<close>

text \<open>
  The sources declare the API (the OpenAPI document) and the tables (the SQL schema), and
  the client calls the API; the request handlers themselves are not among the sources.
  The tables and bodies below are translated from the declarations. A column of a table
  carries a prefix for its table: \<open>u_\<close> users, \<open>p_\<close> products, \<open>r_\<close> reviews, \<open>ph_\<close>
  \<open>review_photos\<close>, \<open>b_\<close> \<open>user_bookmarks\<close>. A \<open>DECIMAL\<close> score is a rational, a nullable
  column an option.
\<close>

datatype moderation_status = pending | approved | rejected

record users_row =
  u_user_id :: string
  u_username :: string
  u_email :: string
  u_password_hash :: string
  u_created_at :: string
  u_updated_at :: string

record products_row =
  p_product_id :: string
  p_name :: string
  p_brand_name :: string
  p_description :: string
  p_primary_image_url :: string
  p_category_id :: string
  p_overall_score :: "number option"
  p_sustainability_score :: "number option"
  p_ethical_score :: "number option"
  p_durability_score :: "number option"
  p_created_at :: string
  p_updated_at :: string

record reviews_row =
  r_review_id :: string
  r_product_id :: string
  r_user_id :: string
  r_title :: string
  r_body :: string
  r_overall_rating :: int
  r_sustainability_rating :: "int option"
  r_ethical_rating :: "int option"
  r_durability_rating :: "int option"
  r_helpful_votes :: int
  r_moderation_status :: moderation_status
  r_created_at :: string
  r_updated_at :: string

record review_photos_row =
  ph_photo_id :: string
  ph_review_id :: string
  ph_photo_url :: string
  ph_uploaded_at :: string

record user_bookmarks_row =
  b_user_id :: string
  b_product_id :: string
  b_bookmarked_at :: string

record Database =
  db_users :: "users_row list"
  db_products :: "products_row list"
  db_product_to_attribute :: "(string \<times> string) list"
  db_reviews :: "reviews_row list"
  db_review_photos :: "review_photos_row list"
  db_user_bookmarks :: "user_bookmarks_row list"

text \<open>
  A response: a status with a body, or an error status with the \<open>errorResponse\<close> body
  \<open>{error: string}\<close>.
\<close>

datatype 'a response = Response nat 'a | ErrorResponse nat string

fun status_code :: "'a response \<Rightarrow> nat" where
  "status_code (Response code _) = code"
| "status_code (ErrorResponse code _) = code"

subsection \<open>GET /products\<close>

record ProductQuery =
  query_q :: "string option"
  query_category_id :: "string option"
  query_brand_name :: "string option"
  query_min_sustainability_score :: "number option"
  query_min_ethical_score :: "number option"
  query_min_durability_score :: "number option"
  query_attribute_ids :: "string list"
  query_sort_by :: "string option"
  query_sort_order :: "sort_direction option"
  query_page :: "int option"
  query_pageSize :: "int option"

record GetProductsResponse =
  resp_products :: "ProductCard list"
  resp_pagination :: PaginationInfo

text \<open>
  What the spec leaves to the underlying store: how the free-text query matches a
  product, how a set of attribute ids matches the attributes of a product, and the order
  of the rows for a sort field and direction (ties included).
\<close>

record StoreBehaviour =
  text_matches :: "string \<Rightarrow> products_row \<Rightarrow> bool"
  attributes_match :: "string list \<Rightarrow> string list \<Rightarrow> bool"
  order_rows :: "string option \<Rightarrow> sort_direction option \<Rightarrow> products_row list \<Rightarrow> products_row list"

text \<open>
  Modelled from the spec: the filter of the catalog query, part of the handler of
  \<open>GET /products\<close>, which is not among the sources. A minimum score keeps the products
  whose score is present and at least the minimum; the category and the brand are
  compared for equality.
\<close>

definition score_at_least :: "number option \<Rightarrow> number option \<Rightarrow> bool" where
  "score_at_least minimum score =
     (case minimum of
        None \<Rightarrow> True
      | Some m \<Rightarrow> (case score of None \<Rightarrow> False | Some v \<Rightarrow> m \<le> v))"

definition product_matches :: "StoreBehaviour \<Rightarrow> Database \<Rightarrow> ProductQuery \<Rightarrow> products_row \<Rightarrow> bool" where
  "product_matches store db query p =
     ((case query_q query of None \<Rightarrow> True | Some q \<Rightarrow> text_matches store q p)
      \<and> (case query_category_id query of None \<Rightarrow> True | Some c \<Rightarrow> p_category_id p = c)
      \<and> (case query_brand_name query of None \<Rightarrow> True | Some b \<Rightarrow> p_brand_name p = b)
      \<and> score_at_least (query_min_sustainability_score query) (p_sustainability_score p)
      \<and> score_at_least (query_min_ethical_score query) (p_ethical_score p)
      \<and> score_at_least (query_min_durability_score query) (p_durability_score p)
      \<and> (query_attribute_ids query = [] \<or>
           attributes_match store (query_attribute_ids query)
             (map snd (filter (\<lambda>(pid, aid). pid = p_product_id p) (db_product_to_attribute db)))))"

text \<open>
  Modelled from the spec: the matching products of a query in the order of the query,
  part of the handler of \<open>GET /products\<close>, which is not among the sources.
\<close>

definition matching_products :: "StoreBehaviour \<Rightarrow> Database \<Rightarrow> ProductQuery \<Rightarrow> products_row list" where
  "matching_products store db query =
     order_rows store (query_sort_by query) (query_sort_order query)
       (filter (product_matches store db query) (db_products db))"

definition to_card :: "products_row \<Rightarrow> ProductCard" where
  "to_card p =
     \<lparr>card_product_id = p_product_id p, card_name = p_name p, card_brand_name = p_brand_name p,
      card_primary_image_url = p_primary_image_url p, card_overall_score = p_overall_score p,
      card_sustainability_score = p_sustainability_score p,
      card_ethical_score = p_ethical_score p, card_durability_score = p_durability_score p\<rparr>"

text \<open>
  Modelled from the spec: the handler of \<open>GET /products\<close> (\<open>search_and_filter_products\<close>),
  which is not among the sources. It returns the page of the matching products and the
  pagination data derived from their number; \<open>page\<close> defaults to 1 and \<open>pageSize\<close> to 20;
  a page beyond the last one is not treated specially and is empty; a page or page size
  below 1 is an invalid parameter (400).
\<close>

definition search_and_filter_products ::
    "StoreBehaviour \<Rightarrow> Database \<Rightarrow> ProductQuery \<Rightarrow> GetProductsResponse response" where
  "search_and_filter_products store db query =
     (let page = (case query_page query of None \<Rightarrow> 1 | Some n \<Rightarrow> n);
          pageSize = (case query_pageSize query of None \<Rightarrow> 20 | Some n \<Rightarrow> n);
          matching = matching_products store db query
      in if page < 1 \<or> pageSize < 1 then ErrorResponse 400 ''Invalid pagination parameters.''
         else Response 200
           \<lparr>resp_products =
              map to_card (take (nat pageSize) (drop (nat ((page - 1) * pageSize)) matching)),
            resp_pagination =
              \<lparr>pagination_currentPage = page, pagination_pageSize = pageSize,
               pagination_totalPages = (int (length matching) + pageSize - 1) div pageSize,
               pagination_totalProducts = int (length matching)\<rparr>\<rparr>)"

subsection \<open>POST /auth/login\<close>

record LoginRequest =
  login_email :: "string option"
  login_password :: "string option"

record LoginResponse =
  login_user_id :: string
  login_username :: string
  login_access_token :: string
  login_token_type :: string
  login_expires_in :: int

text \<open>
  Modelled from the spec: the handler of \<open>POST /auth/login\<close> (\<open>login_user\<close>), which is not
  among the sources. A missing email or password is a bad request (400); an unknown
  email or a password that does not match the stored hash is 401; otherwise a bearer
  token is issued (200). How a password is checked against a hash and how a token is
  made are parameters. Issuing is stateless: the database is not written.
\<close>

definition login_user ::
    "(string \<Rightarrow> string \<Rightarrow> bool) \<Rightarrow> (users_row \<Rightarrow> string \<times> int) \<Rightarrow> Database \<Rightarrow> LoginRequest
       \<Rightarrow> LoginResponse response" where
  "login_user password_matches issue_token db request =
     (case login_email request of
        None \<Rightarrow> ErrorResponse 400 ''Email and password are required.''
      | Some email \<Rightarrow>
          (case login_password request of
             None \<Rightarrow> ErrorResponse 400 ''Email and password are required.''
           | Some password \<Rightarrow>
               (case find (\<lambda>u. u_email u = email) (db_users db) of
                  None \<Rightarrow> ErrorResponse 401 ''Invalid email or password.''
                | Some user \<Rightarrow>
                    if password_matches password (u_password_hash user)
                    then Response 200
                      \<lparr>login_user_id = u_user_id user, login_username = u_username user,
                       login_access_token = fst (issue_token user), login_token_type = ''Bearer'',
                       login_expires_in = snd (issue_token user)\<rparr>
                    else ErrorResponse 401 ''Invalid email or password.'')))"

text \<open>The token that a login response carries, if any.\<close>

fun issued_token :: "LoginResponse response \<Rightarrow> string option" where
  "issued_token (Response _ body) = Some (login_access_token body)"
| "issued_token (ErrorResponse _ _) = None"

subsection \<open>POST /products/{product-id}/bookmark\<close>

text \<open>
  Modelled from the spec: the handler of \<open>POST /products/{product_id}/bookmark\<close>
  (\<open>bookmark_product\<close>), which is not among the sources. The caller is the user of the
  bearer token, if the token is valid. Without a user the answer is 401, for an unknown
  product 404, for a product that the user has bookmarked already 409; otherwise a row
  is added to \<open>user_bookmarks\<close> (201). The result is the response and the new database.
\<close>

definition bookmark_product ::
    "string \<Rightarrow> Database \<Rightarrow> string option \<Rightarrow> string \<Rightarrow> string response \<times> Database" where
  "bookmark_product now db caller product_id =
     (case caller of
        None \<Rightarrow> (ErrorResponse 401 ''Authentication required.'', db)
      | Some user_id \<Rightarrow>
          if product_id \<notin> set (map p_product_id (db_products db))
          then (ErrorResponse 404 ''Product not found.'', db)
          else if \<exists>b\<in>set (db_user_bookmarks db). b_user_id b = user_id \<and> b_product_id b = product_id
          then (ErrorResponse 409 ''Product is already bookmarked.'', db)
          else (Response 201 ''Product bookmarked successfully.'',
                db\<lparr>db_user_bookmarks := db_user_bookmarks db @
                      [\<lparr>b_user_id = user_id, b_product_id = product_id, b_bookmarked_at = now\<rparr>]\<rparr>))"

text \<open>The products that a user has bookmarked.\<close>

definition bookmarks_of :: "Database \<Rightarrow> string \<Rightarrow> string list" where
  "bookmarks_of db user_id =
     map b_product_id (filter (\<lambda>b. b_user_id b = user_id) (db_user_bookmarks db))"

subsection \<open>POST /products/{product-id}/reviews\<close>

record ReviewRequest =
  req_title :: "string option"
  req_body :: "string option"
  req_overall_rating :: "int option"
  req_sustainability_rating :: "int option"
  req_ethical_rating :: "int option"
  req_durability_rating :: "int option"
  req_photos :: "File list"

record ReviewCreated =
  created_review_id :: string
  created_message :: string

text \<open>What the server supplies for a new review: the time, the identifiers, and the
  URL under which a stored photo is served.\<close>

record ServerEnv =
  env_now :: string
  env_review_id :: string
  env_photo_id :: "File \<Rightarrow> string"
  env_store_photo :: "File \<Rightarrow> string"

definition rating_in_range :: "int \<Rightarrow> bool" where
  "rating_in_range r = (1 \<le> r \<and> r \<le> 5)"

text \<open>
  Modelled from the spec: the validation of a submitted review, part of the handler of
  \<open>POST /products/{product_id}/reviews\<close>, which is not among the sources: title and body
  non-empty, the overall rating within 1 to 5, each optional rating absent or within 1
  to 5, the photos within the type and size limits. The request body that the API
  declares has no confirmation field, so none is checked here.
\<close>

definition valid_review :: "ReviewRequest \<Rightarrow> bool" where
  "valid_review request =
     ((case req_title request of None \<Rightarrow> False | Some t \<Rightarrow> t \<noteq> [])
      \<and> (case req_body request of None \<Rightarrow> False | Some b \<Rightarrow> b \<noteq> [])
      \<and> (case req_overall_rating request of None \<Rightarrow> False | Some r \<Rightarrow> rating_in_range r)
      \<and> (case req_sustainability_rating request of None \<Rightarrow> True | Some r \<Rightarrow> rating_in_range r)
      \<and> (case req_ethical_rating request of None \<Rightarrow> True | Some r \<Rightarrow> rating_in_range r)
      \<and> (case req_durability_rating request of None \<Rightarrow> True | Some r \<Rightarrow> rating_in_range r)
      \<and> list_all (\<lambda>f. file_type f \<in> set allowedTypes \<and> file_size f \<le> maxSize) (req_photos request))"

text \<open>
  Modelled from the spec: the handler of \<open>POST /products/{product_id}/reviews\<close>
  (\<open>submit_review_for_product\<close>), which is not among the sources. Without a user the
  answer is 401, for an unknown product 404, for an invalid review 400; otherwise the
  review is persisted with \<open>moderation_status\<close> pending (the default of the column) and no
  helpful votes, and each photo is stored and referenced by its URL (201).
\<close>

definition submit_review_for_product ::
    "ServerEnv \<Rightarrow> Database \<Rightarrow> string option \<Rightarrow> string \<Rightarrow> ReviewRequest
       \<Rightarrow> ReviewCreated response \<times> Database" where
  "submit_review_for_product env db caller product_id request =
     (case caller of
        None \<Rightarrow> (ErrorResponse 401 ''Authentication required.'', db)
      | Some user_id \<Rightarrow>
          if product_id \<notin> set (map p_product_id (db_products db))
          then (ErrorResponse 404 ''Product not found.'', db)
          else if \<not> valid_review request
          then (ErrorResponse 400 ''Invalid review.'', db)
          else
            (Response 201
               \<lparr>created_review_id = env_review_id env,
                created_message = ''Review submitted successfully and is pending moderation.''\<rparr>,
             db\<lparr>db_reviews := db_reviews db @
                   [\<lparr>r_review_id = env_review_id env, r_product_id = product_id,
                     r_user_id = user_id,
                     r_title = (case req_title request of Some t \<Rightarrow> t | None \<Rightarrow> []),
                     r_body = (case req_body request of Some b \<Rightarrow> b | None \<Rightarrow> []),
                     r_overall_rating = (case req_overall_rating request of Some r \<Rightarrow> r | None \<Rightarrow> 0),
                     r_sustainability_rating = req_sustainability_rating request,
                     r_ethical_rating = req_ethical_rating request,
                     r_durability_rating = req_durability_rating request,
                     r_helpful_votes = 0, r_moderation_status = pending,
                     r_created_at = env_now env, r_updated_at = env_now env\<rparr>],
                 db_review_photos := db_review_photos db @
                   map (\<lambda>f. \<lparr>ph_photo_id = env_photo_id env f, ph_review_id = env_review_id env,
                             ph_photo_url = env_store_photo env f, ph_uploaded_at = env_now env\<rparr>)
                     (req_photos request)\<rparr>))"


subsection \<open>Seed data\<close>

text \<open>Some rows of the seed data that the schema inserts.\<close>

definition seed_user_abc :: users_row where
  "seed_user_abc =
     \<lparr>u_user_id = ''user_abc'', u_username = ''ecowoman_emily'',
      u_email = ''emily@sustainareview.com'', u_password_hash = ''hashed_password_emily'',
      u_created_at = ''2023-10-26 10:00:00'', u_updated_at = ''2023-10-26 10:00:00''\<rparr>"

definition seed_prod_001 :: products_row where
  "seed_prod_001 =
     \<lparr>p_product_id = ''prod_001'', p_name = ''EcoPure Water Bottle'', p_brand_name = ''AquaLife'',
      p_description = ''A reusable water bottle made from 100% recycled stainless steel.'',
      p_primary_image_url = ''https://picsum.photos/seed/aquife/300/300'',
      p_category_id = ''cat_003'', p_overall_score = Some (47 / 10),
      p_sustainability_score = Some (49 / 10), p_ethical_score = Some (45 / 10),
      p_durability_score = Some (48 / 10),
      p_created_at = ''2023-10-26 11:00:00'', p_updated_at = ''2023-10-26 11:00:00''\<rparr>"

definition seed_prod_002 :: products_row where
  "seed_prod_002 =
     \<lparr>p_product_id = ''prod_002'', p_name = ''TrailBlazer Hiking Boots'',
      p_brand_name = ''SummitChaser'',
      p_description = ''Durable and waterproof hiking boots for all terrains.'',
      p_primary_image_url = ''https://picsum.photos/seed/hikewear/300/300'',
      p_category_id = ''cat_006'', p_overall_score = Some (45 / 10),
      p_sustainability_score = Some (40 / 10), p_ethical_score = Some (42 / 10),
      p_durability_score = Some (49 / 10),
      p_created_at = ''2023-10-26 11:05:00'', p_updated_at = ''2023-10-26 11:05:00''\<rparr>"

definition seed_prod_005 :: products_row where
  "seed_prod_005 =
     \<lparr>p_product_id = ''prod_005'', p_name = ''Artisan Coffee Beans'', p_brand_name = ''BeanCraft'',
      p_description = ''Ethically sourced and single-origin coffee beans.'',
      p_primary_image_url = ''https://picsum.photos/seed/coffeebeans/300/300'',
      p_category_id = ''cat_005'', p_overall_score = Some (48 / 10),
      p_sustainability_score = Some (47 / 10), p_ethical_score = Some (49 / 10),
      p_durability_score = None,
      p_created_at = ''2023-10-26 11:20:00'', p_updated_at = ''2023-10-26 11:20:00''\<rparr>"

definition seed_database :: Database where
  "seed_database =
     \<lparr>db_users = [seed_user_abc],
      db_products = [seed_prod_001, seed_prod_002, seed_prod_005],
      db_product_to_attribute =
        [(''prod_001'', ''attr_001''), (''prod_001'', ''attr_008''), (''prod_002'', ''attr_006''),
         (''prod_005'', ''attr_003''), (''prod_005'', ''attr_009'')],
      db_reviews = [], db_review_photos = [],
      db_user_bookmarks =
        [\<lparr>b_user_id = ''user_abc'', b_product_id = ''prod_001'',
          b_bookmarked_at = ''2023-10-27 10:00:00''\<rparr>]\<rparr>"

subsection \<open>The client's request for a page of products\<close>

definition append_param :: "string \<Rightarrow> string \<Rightarrow> URLSearchParams \<Rightarrow> URLSearchParams" where
  "append_param key val params = params @ [(key, val)]"

text \<open>
  \<open>buildQueryParams\<close>: the query string of the request to \<open>/api/products\<close>. A string
  is appended if it is neither null nor empty, a score if it is not null, the attribute
  ids if there is one; the page and the page size always.
\<close>

definition buildQueryParams ::
    "('n \<Rightarrow> string) \<Rightarrow> string option \<Rightarrow> string option \<Rightarrow> string option \<Rightarrow> 'n option \<Rightarrow> 'n option
       \<Rightarrow> 'n option \<Rightarrow> string list \<Rightarrow> string option \<Rightarrow> sort_direction option \<Rightarrow> int \<Rightarrow> int
       \<Rightarrow> URLSearchParams" where
  "buildQueryParams toString search_term' category_id' brand_name' min_sustainability_score'
       min_ethical_score' min_durability_score' attribute_ids' sort_by' sort_order' page pageSize' =
     (let params0 = [];
          params1 = (case or_null search_term' of
                       Some v \<Rightarrow> append_param ''q'' v params0 | None \<Rightarrow> params0);
          params2 = (case or_null category_id' of
                       Some v \<Rightarrow> append_param ''category_id'' v params1 | None \<Rightarrow> params1);
          params3 = (case or_null brand_name' of
                       Some v \<Rightarrow> append_param ''brand_name'' v params2 | None \<Rightarrow> params2);
          params4 = (case min_sustainability_score' of
                       Some m \<Rightarrow> append_param ''min_sustainability_score'' (toString m) params3
                     | None \<Rightarrow> params3);
          params5 = (case min_ethical_score' of
                       Some m \<Rightarrow> append_param ''min_ethical_score'' (toString m) params4
                     | None \<Rightarrow> params4);
          params6 = (case min_durability_score' of
                       Some m \<Rightarrow> append_param ''min_durability_score'' (toString m) params5
                     | None \<Rightarrow> params5);
          params7 = (if length attribute_ids' > 0
                     then append_param ''attribute_ids'' (join '','' attribute_ids') params6
                     else params6);
          params8 = (case or_null sort_by' of
                       Some v \<Rightarrow> append_param ''sort_by'' v params7 | None \<Rightarrow> params7);
          params9 = (case sort_order' of
                       Some d \<Rightarrow> append_param ''sort_order'' (sort_direction_string d) params8
                     | None \<Rightarrow> params8)
      in append_param ''pageSize'' (number_toString pageSize')
           (append_param ''page'' (number_toString page) params9))"


section \<open>Properties of the store actions\<close>

text \<open>
  C9. In every store state, \<open>set_search_term\<close> sets \<open>search_term\<close> to the given value,
  resets \<open>category_id\<close>, \<open>brand_name\<close> and the three minimum scores to null and
  \<open>attribute_ids\<close> to the empty list, and leaves \<open>sort_by\<close>, \<open>sort_order\<close> and the
  \<open>auth\<close>, \<open>products\<close>, \<open>categories\<close>, \<open>attributes\<close> and \<open>notifications\<close> slices as
  they were.
\<close>

theorem set_search_term_frame:
  "filters (set_search_term term state) =
     \<lparr>search_term = term, category_id = None, brand_name = None,
      min_sustainability_score = None, min_ethical_score = None,
      min_durability_score = None, attribute_ids = [],
      sort_by = sort_by (filters state), sort_order = sort_order (filters state)\<rparr>
   \<and> auth (set_search_term term state) = auth state
   \<and> products (set_search_term term state) = products state
   \<and> categories (set_search_term term state) = categories state
   \<and> attributes (set_search_term term state) = attributes state
   \<and> notifications (set_search_term term state) = notifications state"
  by (simp add: set_search_term_def)


lemma mset_filter_neq_add:
  "distinct xs \<Longrightarrow> a \<in> set xs \<Longrightarrow> add_mset a (mset (filter (\<lambda>id. id \<noteq> a) xs)) = mset xs"
proof (induction xs)
  case Nil
  then show ?case by simp
next
  case (Cons x xs)
  show ?case
  proof (cases "x = a")
    case True
    with Cons.prems have "a \<notin> set xs" by simp
    then have "filter (\<lambda>id. id \<noteq> a) xs = xs" by (auto simp: filter_id_conv)
    with True show ?thesis by (simp del: mset_filter)
  next
    case False
    with Cons show ?thesis by (simp del: mset_filter)
  qed
qed

text \<open>
  C10. In a store state whose \<open>attribute_ids\<close> has no duplicates, toggling the same
  attribute twice gives a list with exactly the elements of the original one (as a set
  and as a multiset, so still without duplicates; the order may differ), and changes no
  other field of the store.
\<close>

theorem toggle_attribute_filter_twice:
  assumes "distinct (attribute_ids (filters state))"
  shows "set (attribute_ids (filters (toggle_attribute_filter a (toggle_attribute_filter a state))))
           = set (attribute_ids (filters state))
       \<and> mset (attribute_ids (filters (toggle_attribute_filter a (toggle_attribute_filter a state))))
           = mset (attribute_ids (filters state))
       \<and> toggle_attribute_filter a (toggle_attribute_filter a state)
           = state\<lparr>filters := (filters state)\<lparr>attribute_ids :=
               attribute_ids (filters (toggle_attribute_filter a (toggle_attribute_filter a state)))\<rparr>\<rparr>"
proof (cases "a \<in> set (attribute_ids (filters state))")
  case True
  with assms show ?thesis
    by (auto simp: toggle_attribute_filter_def Let_def mset_filter_neq_add simp del: mset_filter)
next
  case False
  then have "filter (\<lambda>id. id \<noteq> a) (attribute_ids (filters state)) = attribute_ids (filters state)"
    by (auto simp: filter_id_conv)
  with False show ?thesis
    by (simp add: toggle_attribute_filter_def Let_def)
qed

theorem toggle_attribute_filter_twice_witness:
  "distinct [''attr_vegan'', ''attr_recycled'']
   \<and> attribute_ids (filters (toggle_attribute_filter ''attr_vegan''
        (toggle_attribute_filter ''attr_vegan''
          (initial_state\<lparr>filters := (filters initial_state)\<lparr>attribute_ids :=
             [''attr_vegan'', ''attr_recycled'']\<rparr>\<rparr>))))
       = [''attr_recycled'', ''attr_vegan'']
   \<and> set [''attr_recycled'', ''attr_vegan''] = set [''attr_vegan'', ''attr_recycled'']"
  using toggle_attribute_filter_twice
    [of "initial_state\<lparr>filters := (filters initial_state)\<lparr>attribute_ids :=
           [''attr_vegan'', ''attr_recycled'']\<rparr>\<rparr>" "''attr_vegan''"]
  by (simp add: toggle_attribute_filter_def Let_def insert_commute)

section \<open>Properties of the review submission form\<close>

lemma fold_check_file_fst:
  "fst (fold check_file files (b, fb)) =
     (b \<or> (\<exists>f\<in>set files. file_type f \<notin> set allowedTypes \<or> file_size f > maxSize))"
  by (induction files arbitrary: b fb) (auto simp: check_file_def)

text \<open>
  C8. For every selection of files: if some selected file has a MIME type other than
  image/jpeg, image/png and image/gif, or a size strictly above 5 * 1024 * 1024 bytes,
  \<open>handleFileSelect\<close> starts no upload at all; otherwise it starts one upload for each
  selected file, in the order of the selection.
\<close>

theorem handleFileSelect_all_or_nothing:
  "snd (handleFileSelect files s) =
     (if \<exists>f\<in>set files. file_type f \<notin> {''image/jpeg'', ''image/png'', ''image/gif''}
                          \<or> file_size f > 5 * 1024 * 1024
      then [] else files)"
  using fold_check_file_fst [of files False "submission_feedback s"]
  by (cases "fold check_file files (False, submission_feedback s)")
     (auto simp: handleFileSelect_def Let_def allowedTypes_def maxSize_def)

theorem handleFileSelect_all_or_nothing_witness:
  "snd (handleFileSelect
          [\<lparr>file_name = ''a.png'', file_type = ''image/png'', file_size = 2048\<rparr>,
           \<lparr>file_name = ''b.pdf'', file_type = ''application/pdf'', file_size = 10\<rparr>] initial_form) = []
   \<and> snd (handleFileSelect
          [\<lparr>file_name = ''a.png'', file_type = ''image/png'', file_size = 2048\<rparr>,
           \<lparr>file_name = ''big.gif'', file_type = ''image/gif'', file_size = 5242881\<rparr>] initial_form) = []
   \<and> snd (handleFileSelect
          [\<lparr>file_name = ''a.png'', file_type = ''image/png'', file_size = 2048\<rparr>,
           \<lparr>file_name = ''max.gif'', file_type = ''image/gif'', file_size = 5242880\<rparr>] initial_form)
       = [\<lparr>file_name = ''a.png'', file_type = ''image/png'', file_size = 2048\<rparr>,
          \<lparr>file_name = ''max.gif'', file_type = ''image/gif'', file_size = 5242880\<rparr>]"
  using handleFileSelect_all_or_nothing
    [of "[\<lparr>file_name = ''a.png'', file_type = ''image/png'', file_size = 2048\<rparr>,
          \<lparr>file_name = ''b.pdf'', file_type = ''application/pdf'', file_size = 10\<rparr>]" initial_form]
    handleFileSelect_all_or_nothing
    [of "[\<lparr>file_name = ''a.png'', file_type = ''image/png'', file_size = 2048\<rparr>,
          \<lparr>file_name = ''big.gif'', file_type = ''image/gif'', file_size = 5242881\<rparr>]" initial_form]
    handleFileSelect_all_or_nothing
    [of "[\<lparr>file_name = ''a.png'', file_type = ''image/png'', file_size = 2048\<rparr>,
          \<lparr>file_name = ''max.gif'', file_type = ''image/gif'', file_size = 5242880\<rparr>]" initial_form]
  by simp


lemma stars_range: "r \<in> set (stars maxRating_default) \<Longrightarrow> r \<in> \<int> \<and> 1 \<le> r \<and> r \<le> 5"
  by (auto simp: stars_def maxRating_default_def)

lemma clear_error_ratings [simp]:
  "overall_rating (clear_error f s) = overall_rating s"
  "sustainability_rating (clear_error f s) = sustainability_rating s"
  "ethical_rating (clear_error f s) = ethical_rating s"
  "durability_rating (clear_error f s) = durability_rating s"
  by (simp_all add: clear_error_def)

lemma handleFileSelect_ratings [simp]:
  "overall_rating (fst (handleFileSelect files s)) = overall_rating s"
  "sustainability_rating (fst (handleFileSelect files s)) = sustainability_rating s"
  "ethical_rating (fst (handleFileSelect files s)) = ethical_rating s"
  "durability_rating (fst (handleFileSelect files s)) = durability_rating s"
  by (simp_all add: handleFileSelect_def Let_def split: prod.splits)

lemma handleSubmit_ratings [simp]:
  "overall_rating (fst (handleSubmit s)) = overall_rating s"
  "sustainability_rating (fst (handleSubmit s)) = sustainability_rating s"
  "ethical_rating (fst (handleSubmit s)) = ethical_rating s"
  "durability_rating (fst (handleSubmit s)) = durability_rating s"
  by (simp_all add: handleSubmit_def Let_def onMutate_def)

lemma onError_ratings [simp]:
  "overall_rating (onError es e s) = overall_rating s"
  "sustainability_rating (onError es e s) = sustainability_rating s"
  "ethical_rating (onError es e s) = ethical_rating s"
  "durability_rating (onError es e s) = durability_rating s"
  by (simp_all add: onError_def Let_def split: option.splits)

lemma form_state_ratings:
  "form_state s \<Longrightarrow>
     (\<forall>r. overall_rating s = Some r \<longrightarrow> r \<in> set (stars maxRating_default))
     \<and> (\<forall>r. sustainability_rating s = Some r \<longrightarrow> r \<in> set (stars maxRating_default))
     \<and> (\<forall>r. ethical_rating s = Some r \<longrightarrow> r \<in> set (stars maxRating_default))
     \<and> (\<forall>r. durability_rating s = Some r \<longrightarrow> r \<in> set (stars maxRating_default))"
proof (induction rule: form_state.induct)
  case mount
  show ?case by (simp add: initial_form_def)
next
  case (sub_rating_click s star field)
  then show ?case by (cases field) simp_all
next
  case (submit_success s message)
  show ?case by (simp add: onSuccess_def)
qed (simp_all add: handleTitleChange_def handleBodyChange_def handleOverallRatingChange_def
      toggleConfirmation_def photo_uploaded_def handleRemovePhoto_def photo_upload_failed_def
      product_info_failed_def)

lemma submit_request_iff:
  "submit_request s \<noteq> None \<longleftrightarrow>
     trim (review_title s) \<noteq> [] \<and> trim (review_body s) \<noteq> []
     \<and> (\<exists>r. overall_rating s = Some r \<and> 1 \<le> r \<and> r \<le> 5) \<and> confirmation_checkbox s"
  by (auto simp: submit_request_def handleSubmit_def submitNewReview_def Let_def
           split: option.splits)


lemma handleSubmit_no_mutate:
  "submit_request s = None \<Longrightarrow> snd (handleSubmit s) = None"
  by (auto simp: submit_request_def handleSubmit_def submitNewReview_def Let_def
           split: option.splits if_splits)

lemma handleSubmit_errors:
  "snd (handleSubmit s) = None \<Longrightarrow>
     validation_errors (fst (handleSubmit s)) \<noteq> []
     \<and> (trim (review_title s) = [] \<longrightarrow> has_error (validation_errors (fst (handleSubmit s))) ''title'')
     \<and> (trim (review_body s) = [] \<longrightarrow> has_error (validation_errors (fst (handleSubmit s))) ''body'')
     \<and> ((\<forall>r. overall_rating s = Some r \<longrightarrow> r < 1 \<or> r > 5) \<longrightarrow>
          has_error (validation_errors (fst (handleSubmit s))) ''overall_rating'')
     \<and> (\<not> confirmation_checkbox s \<longrightarrow>
          has_error (validation_errors (fst (handleSubmit s))) ''confirmation_checkbox'')"
  by (auto simp: handleSubmit_def Let_def has_error_def update_conv' split: if_splits option.splits)

text \<open>
  The decision of the handler does not depend on the optional ratings: it forwards them
  as they are.
\<close>

lemma submit_request_ignores_sub_ratings:
  "submit_request (s\<lparr>sustainability_rating := a, ethical_rating := b, durability_rating := c\<rparr>) = None
     \<longleftrightarrow> submit_request s = None"
  using submit_request_iff [of s]
    submit_request_iff [of "s\<lparr>sustainability_rating := a, ethical_rating := b, durability_rating := c\<rparr>"]
  by auto

text \<open>
  C1. In every state of the review form, a submit sends the review to the server exactly
  when the trimmed title and the trimmed body are non-empty, the overall rating is an
  integer from 1 to 5, each of the three optional ratings is absent or within 1 to 5, and
  the confirmation box is checked. Otherwise the mutation is not called, no request is
  made, and the handler stores a non-empty set of validation errors with an entry for
  each of the title, body, overall rating and confirmation that failed. (The handler
  tests the title, the body, the overall rating and the confirmation; the optional
  ratings and integrality hold in every state of the form, because a rating is only
  ever written by a star of the rating widget or reset to null.)
\<close>

theorem handleSubmit_sends_iff_valid:
  assumes "form_state s"
  shows "(submit_request s \<noteq> None \<longleftrightarrow>
            trim (review_title s) \<noteq> [] \<and> trim (review_body s) \<noteq> []
            \<and> (\<exists>r. overall_rating s = Some r \<and> r \<in> \<int> \<and> 1 \<le> r \<and> r \<le> 5)
            \<and> (\<forall>r. sustainability_rating s = Some r \<longrightarrow> 1 \<le> r \<and> r \<le> 5)
            \<and> (\<forall>r. ethical_rating s = Some r \<longrightarrow> 1 \<le> r \<and> r \<le> 5)
            \<and> (\<forall>r. durability_rating s = Some r \<longrightarrow> 1 \<le> r \<and> r \<le> 5)
            \<and> confirmation_checkbox s)
       \<and> (submit_request s = None \<longrightarrow>
            snd (handleSubmit s) = None
            \<and> validation_errors (fst (handleSubmit s)) \<noteq> []
            \<and> (trim (review_title s) = [] \<longrightarrow>
                 has_error (validation_errors (fst (handleSubmit s))) ''title'')
            \<and> (trim (review_body s) = [] \<longrightarrow>
                 has_error (validation_errors (fst (handleSubmit s))) ''body'')
            \<and> ((\<forall>r. overall_rating s = Some r \<longrightarrow> r < 1 \<or> r > 5) \<longrightarrow>
                 has_error (validation_errors (fst (handleSubmit s))) ''overall_rating'')
            \<and> (\<not> confirmation_checkbox s \<longrightarrow>
                 has_error (validation_errors (fst (handleSubmit s))) ''confirmation_checkbox''))"
proof -
  note inv = form_state_ratings [OF assms]
  have sub: "\<And>v r. (\<forall>r. v = Some r \<longrightarrow> r \<in> set (stars maxRating_default)) \<Longrightarrow>
               v = Some r \<Longrightarrow> r \<in> \<int> \<and> 1 \<le> r \<and> r \<le> 5"
    using stars_range by blast
  have "submit_request s \<noteq> None \<longleftrightarrow>
            trim (review_title s) \<noteq> [] \<and> trim (review_body s) \<noteq> []
            \<and> (\<exists>r. overall_rating s = Some r \<and> r \<in> \<int> \<and> 1 \<le> r \<and> r \<le> 5)
            \<and> (\<forall>r. sustainability_rating s = Some r \<longrightarrow> 1 \<le> r \<and> r \<le> 5)
            \<and> (\<forall>r. ethical_rating s = Some r \<longrightarrow> 1 \<le> r \<and> r \<le> 5)
            \<and> (\<forall>r. durability_rating s = Some r \<longrightarrow> 1 \<le> r \<and> r \<le> 5)
            \<and> confirmation_checkbox s"
    unfolding submit_request_iff using inv sub by blast
  moreover have "submit_request s = None \<longrightarrow> snd (handleSubmit s) = None"
    using handleSubmit_no_mutate by blast
  ultimately show ?thesis
    using handleSubmit_errors [of s] by blast
qed

theorem handleSubmit_sends_iff_valid_witness:
  "form_state (toggleConfirmation
     (handleAnyRatingChange sustainability_rating_field 4
       (handleOverallRatingChange 5
         (handleBodyChange ''Lasts for years.''
           (handleTitleChange '' Great  '' initial_form)))))
   \<and> submit_request (toggleConfirmation
     (handleAnyRatingChange sustainability_rating_field 4
       (handleOverallRatingChange 5
         (handleBodyChange ''Lasts for years.''
           (handleTitleChange '' Great  '' initial_form)))))
     = Some [(''title'', Text ''Great''), (''body'', Text ''Lasts for years.''),
             (''overall_rating'', StringOfNumber 5),
             (''sustainability_rating'', StringOfNumber 4)]
   \<and> form_state (handleTitleChange ''   '' initial_form)
   \<and> submit_request (handleTitleChange ''   '' initial_form) = None
   \<and> validation_errors (fst (handleSubmit (handleTitleChange ''   '' initial_form)))
       = [(''title'', ''Review title is required.''),
          (''body'', ''Review body cannot be empty.''),
          (''overall_rating'', ''Please provide an overall rating.''),
          (''confirmation_checkbox'',
           ''You must confirm you have personally used this product.'')]"
proof -
  have star_4: "4 \<in> set (stars maxRating_default)"
    by (auto simp: stars_def maxRating_default_def intro!: image_eqI [where x = 3])
  have star_5: "5 \<in> set (stars maxRating_default)"
    by (auto simp: stars_def maxRating_default_def intro!: image_eqI [where x = 4])
  have valid: "form_state (toggleConfirmation
     (handleAnyRatingChange sustainability_rating_field 4
       (handleOverallRatingChange 5
         (handleBodyChange ''Lasts for years.''
           (handleTitleChange '' Great  '' initial_form)))))"
    by (intro confirmation_toggle sub_rating_click overall_click body_change title_change
          mount star_4 star_5)
  have invalid: "form_state (handleTitleChange ''   '' initial_form)"
    by (intro title_change mount)
  show ?thesis
    using valid invalid handleSubmit_sends_iff_valid [OF valid]
      handleSubmit_sends_iff_valid [OF invalid]
    by (simp add: submit_request_def handleSubmit_def submitNewReview_def Let_def
          toggleConfirmation_def handleOverallRatingChange_def handleBodyChange_def
          handleTitleChange_def clear_error_def has_error_def initial_form_def onMutate_def
          trim_def is_js_whitespace_def)
qed


section \<open>Properties of the search results view\<close>

lemma get_delete_param:
  "get_param (delete_param k ps) k' = (if k' = k then None else get_param ps k')"
  by (induction ps) (auto simp: get_param_def delete_param_def)

lemma get_set_param:
  "get_param (set_param k v ps) k' = (if k' = k then Some v else get_param ps k')"
proof (induction ps)
  case Nil
  show ?case by (simp add: get_param_def)
next
  case (Cons p ps)
  obtain a b where p: "p = (a, b)" by (cases p)
  show ?case
    using Cons get_delete_param [of k ps k']
    by (auto simp: p get_param_def)
qed

lemma get_updateParam:
  "get_param (updateParam k v ps) k' = (if k' = k then or_null v else get_param ps k')"
  by (auto simp: updateParam_def or_null_def get_set_param get_delete_param split: option.splits)

lemma get_write_url:
  "get_param (write_url ts s ps) ''q'' = or_null (searchTerm s)"
  "get_param (write_url ts s ps) ''category_id'' = or_null (selectedCategory s)"
  "get_param (write_url ts s ps) ''brand_name'' = or_null (selectedBrand s)"
  "get_param (write_url ts s ps) ''min_sustainability_score''
     = or_null (map_option ts (selectedSustainabilityScore s))"
  "get_param (write_url ts s ps) ''min_ethical_score''
     = or_null (map_option ts (selectedEthicalScore s))"
  "get_param (write_url ts s ps) ''min_durability_score''
     = or_null (map_option ts (selectedDurabilityScore s))"
  "get_param (write_url ts s ps) ''attribute_ids''
     = or_null (if length (selectedAttributes s) > 0
                then Some (join '','' (selectedAttributes s)) else None)"
  "get_param (write_url ts s ps) ''sort_by'' = or_null (sortBy s)"
  "get_param (write_url ts s ps) ''sort_order''
     = or_null (map_option sort_direction_string (sortOrder s))"
  "get_param (write_url ts s ps) ''page''
     = or_null (if currentPage s > 1 then Some (number_toString (currentPage s)) else None)"
  by (simp_all add: write_url_def Let_def get_updateParam)

lemma split_from_no_sep:
  "sep \<notin> set x \<Longrightarrow> split_from sep acc x = [rev acc @ x]"
  by (induction x arbitrary: acc) auto

lemma split_from_sep:
  "sep \<notin> set x \<Longrightarrow> split_from sep acc (x @ sep # rest) = (rev acc @ x) # split_from sep [] rest"
  by (induction x arbitrary: acc) auto

lemma split_join:
  "xs \<noteq> [] \<Longrightarrow> \<forall>x\<in>set xs. sep \<notin> set x \<Longrightarrow> split sep (join [sep] xs) = xs"
proof (induction "[sep]" xs rule: join.induct)
  case 1
  then show ?case by simp
next
  case (2 x)
  then show ?case by (simp add: split_def split_from_no_sep)
next
  case (3 x y ys)
  then show ?case by (simp add: split_def split_from_sep)
qed

lemma join_empty:
  "join [sep] xs = [] \<longleftrightarrow> xs = [] \<or> xs = [[]]"
  by (induction "[sep]" xs rule: join.induct) auto

lemma is_digit_digit_char: "d < 10 \<Longrightarrow> is_digit (digit_char d)"
  by (simp add: is_digit_def digit_char_def)

lemma digit_value_digit_char: "d < 10 \<Longrightarrow> digit_value (digit_char d) = d"
  by (simp add: digit_value_def digit_char_def)

lemma nat_digits_all_digits: "\<forall>c\<in>set (nat_digits n). is_digit c"
  by (induction n rule: nat_digits.induct)
     (subst nat_digits.simps, auto simp: is_digit_digit_char)

lemma nat_digits_nonempty: "nat_digits n \<noteq> []"
  by (subst nat_digits.simps) simp

lemma foldl_nat_digits:
  "foldl (\<lambda>acc c. 10 * acc + digit_value c) 0 (nat_digits n) = n"
  by (induction n rule: nat_digits.induct)
     (subst nat_digits.simps, auto simp: digit_value_digit_char)

lemma is_digit_not_special:
  "is_digit c \<Longrightarrow> \<not> is_js_whitespace c \<and> c \<noteq> CHR ''-'' \<and> c \<noteq> CHR ''+''"
  by (auto simp: is_digit_def is_js_whitespace_def)

lemma parseInt_digits:
  assumes "ds \<noteq> []" "\<forall>c\<in>set ds. is_digit c"
  shows "parseInt ds = Some (int (foldl (\<lambda>acc c. 10 * acc + digit_value c) 0 ds))"
    and "parseInt (CHR ''-'' # ds) = Some (- int (foldl (\<lambda>acc c. 10 * acc + digit_value c) 0 ds))"
proof -
  obtain d r where ds: "ds = d # r"
    using assms(1) by (cases ds) auto
  have d: "\<not> is_js_whitespace d" "d \<noteq> CHR ''-''" "d \<noteq> CHR ''+''"
    using assms(2) is_digit_not_special [of d] by (auto simp: ds)
  have tw: "takeWhile is_digit (d # r) = d # r"
    using assms(2) by (simp add: takeWhile_eq_all_conv ds)
  show "parseInt ds = Some (int (foldl (\<lambda>acc c. 10 * acc + digit_value c) 0 ds))"
    using d tw by (simp add: parseInt_def ds Let_def)
  have minus: "\<not> is_js_whitespace CHR ''-''"
    by (simp add: is_js_whitespace_def)
  show "parseInt (CHR ''-'' # ds) = Some (- int (foldl (\<lambda>acc c. 10 * acc + digit_value c) 0 ds))"
    using minus tw by (simp add: parseInt_def ds Let_def)
qed

lemma parseInt_number_toString: "parseInt (number_toString n) = Some n"
  using parseInt_digits [OF nat_digits_nonempty nat_digits_all_digits, of "nat n"]
    parseInt_digits [OF nat_digits_nonempty nat_digits_all_digits, of "nat (- n)"]
  by (simp add: number_toString_def foldl_nat_digits)

lemma number_toString_nonempty: "number_toString n \<noteq> []"
  by (simp add: number_toString_def nat_digits_nonempty)

lemma parseInt_empty: "parseInt [] = None"
  by (simp add: parseInt_def)

lemma parseInt_1: "parseInt ''1'' = Some 1"
  by (simp add: parseInt_def is_js_whitespace_def is_digit_def digit_value_def)

text \<open>
  C2 (amended). Take a state of the view in which the search term, the category, the
  brand and the sort field are each null or a non-empty string, no attribute id contains
  a comma and the attribute list is not the single empty string, the page is an integer
  from 1 up to the safe-integer bound, and each score is a number that \<open>parseFloat\<close>
  reads back from its \<open>toString\<close> (with \<open>parseFloat('')\<close> being \<open>NaN\<close>). Writing the
  state into the URL parameters, whatever they were before, and then running the reading
  effect on that state gives the same state; so does mounting the view on the written
  URL.
\<close>

theorem url_round_trip:
  fixes s :: "'n SearchState"
  assumes parse_empty: "parseFloat [] = None"
      and parse_print: "\<And>x. parseFloat (toString x) = Some x"
      and q_ok: "searchTerm s \<noteq> Some []"
      and cat_ok: "selectedCategory s \<noteq> Some []"
      and brand_ok: "selectedBrand s \<noteq> Some []"
      and sort_ok: "sortBy s \<noteq> Some []"
      and attrs_ok: "\<forall>a\<in>set (selectedAttributes s). CHR '','' \<notin> set a" "selectedAttributes s \<noteq> [[]]"
      and page_ok: "1 \<le> currentPage s" "currentPage s < 2 ^ 53"
  shows "read_url parseFloat (write_url toString s currentParams) s = s
       \<and> initial_search_state parseFloat (write_url toString s currentParams) = s"
proof -
  let ?u = "write_url toString s currentParams"
  have ts_nonempty: "\<And>x. toString x \<noteq> []"
    using parse_empty parse_print by (metis option.distinct(1))
  have q: "get_param ?u ''q'' = searchTerm s"
    using q_ok by (simp add: get_write_url or_null_def split: option.splits)
  have c: "get_param ?u ''category_id'' = selectedCategory s"
    using cat_ok by (simp add: get_write_url or_null_def split: option.splits)
  have b: "get_param ?u ''brand_name'' = selectedBrand s"
    using brand_ok by (simp add: get_write_url or_null_def split: option.splits)
  have sb: "get_param ?u ''sort_by'' = sortBy s"
    using sort_ok by (simp add: get_write_url or_null_def split: option.splits)
  have score: "\<And>v. or_null (map_option toString v) = map_option toString v"
    using ts_nonempty by (simp add: or_null_def split: option.splits)
  have score_read: "\<And>v. read_score parseFloat (map_option toString v) v = v"
    using ts_nonempty parse_empty parse_print
    by (auto simp: read_score_def or_string_def Let_def split: option.splits)
  have score_init: "\<And>v. parseFloat (or_string (map_option toString v) []) = v"
    using ts_nonempty parse_empty parse_print
    by (auto simp: or_string_def split: option.splits)
  have so: "valid_sort_order (get_param ?u ''sort_order'') = sortOrder s"
    by (cases "sortOrder s"; cases "the (sortOrder s)")
       (auto simp: get_write_url or_null_def valid_sort_order_def)
  have at: "(case or_null (get_param ?u ''attribute_ids'') of
               Some p \<Rightarrow> split CHR '','' p | None \<Rightarrow> []) = selectedAttributes s"
  proof (cases "selectedAttributes s = []")
    case True
    then show ?thesis by (simp add: get_write_url or_null_def)
  next
    case False
    then have "join '','' (selectedAttributes s) \<noteq> []"
      using attrs_ok(2) by (simp add: join_empty)
    then show ?thesis
      using False attrs_ok(1) by (simp add: get_write_url or_null_def split_join)
  qed
  have pg: "parseInt (or_string (get_param ?u ''page'') ''1'') = Some (currentPage s)"
  proof (cases "currentPage s > 1")
    case True
    then show ?thesis
      by (simp add: get_write_url or_null_def or_string_def number_toString_nonempty
            parseInt_number_toString)
  next
    case False
    with page_ok(1) have "currentPage s = 1" by simp
    then show ?thesis by (simp add: get_write_url or_null_def or_string_def parseInt_1)
  qed
  have "read_url parseFloat ?u s = s"
    by (simp add: read_url_def Let_def q c b sb so at pg get_write_url(4-6) score score_read)
  moreover have "initial_search_state parseFloat ?u = s"
  proof -
    have q': "or_null (get_param ?u ''q'') = searchTerm s"
      using q_ok by (simp add: q or_null_def split: option.splits)
    have c': "or_null (get_param ?u ''category_id'') = selectedCategory s"
      using cat_ok by (simp add: c or_null_def split: option.splits)
    have b': "or_null (get_param ?u ''brand_name'') = selectedBrand s"
      using brand_ok by (simp add: b or_null_def split: option.splits)
    have sb': "or_null (get_param ?u ''sort_by'') = sortBy s"
      using sort_ok by (simp add: sb or_null_def split: option.splits)
    have "initial_search_state parseFloat ?u =
            \<lparr>searchTerm = searchTerm s, selectedCategory = selectedCategory s,
             selectedBrand = selectedBrand s,
             selectedSustainabilityScore = selectedSustainabilityScore s,
             selectedEthicalScore = selectedEthicalScore s,
             selectedDurabilityScore = selectedDurabilityScore s,
             selectedAttributes = selectedAttributes s, sortBy = sortBy s,
             sortOrder = sortOrder s, currentPage = currentPage s\<rparr>"
      unfolding initial_search_state_def
      by (simp only: q' c' b' sb' so at pg get_write_url(4-6) score score_init option.case)
    then show ?thesis by simp
  qed
  ultimately show ?thesis by simp
qed


text \<open>
  The round trip does not hold for every state with a null or non-empty search term,
  category and brand. Mounting on \<open>?page=0\<close> gives a state with page 0; writing it
  deletes \<open>page\<close>, which is written only above 1, and the reading effect then sets the page
  to 1.
\<close>

theorem url_round_trip_counterexample:
  "initial_search_state parseInt [(''page'', ''0'')]
     = \<lparr>searchTerm = None, selectedCategory = None, selectedBrand = None,
        selectedSustainabilityScore = None, selectedEthicalScore = None,
        selectedDurabilityScore = None, selectedAttributes = [], sortBy = None,
        sortOrder = None, currentPage = 0\<rparr>
   \<and> write_url number_toString
        \<lparr>searchTerm = None, selectedCategory = None, selectedBrand = None,
         selectedSustainabilityScore = None, selectedEthicalScore = None,
         selectedDurabilityScore = None, selectedAttributes = [], sortBy = None,
         sortOrder = None, currentPage = 0\<rparr> [(''page'', ''0'')] = []
   \<and> read_url parseInt []
        \<lparr>searchTerm = None, selectedCategory = None, selectedBrand = None,
         selectedSustainabilityScore = None, selectedEthicalScore = None,
         selectedDurabilityScore = None, selectedAttributes = [], sortBy = None,
         sortOrder = None, currentPage = 0\<rparr>
     = \<lparr>searchTerm = None, selectedCategory = None, selectedBrand = None,
        selectedSustainabilityScore = None, selectedEthicalScore = None,
        selectedDurabilityScore = None, selectedAttributes = [], sortBy = None,
        sortOrder = None, currentPage = 1\<rparr>
   \<and> read_url parseInt
        (write_url number_toString
          \<lparr>searchTerm = None, selectedCategory = None, selectedBrand = None,
           selectedSustainabilityScore = None, selectedEthicalScore = None,
           selectedDurabilityScore = None, selectedAttributes = [], sortBy = None,
           sortOrder = None, currentPage = 0\<rparr> [(''page'', ''0'')])
        \<lparr>searchTerm = None, selectedCategory = None, selectedBrand = None,
         selectedSustainabilityScore = None, selectedEthicalScore = None,
         selectedDurabilityScore = None, selectedAttributes = [], sortBy = None,
         sortOrder = None, currentPage = 0\<rparr>
     \<noteq> \<lparr>searchTerm = None, selectedCategory = None, selectedBrand = None,
        selectedSustainabilityScore = None, selectedEthicalScore = None,
        selectedDurabilityScore = None, selectedAttributes = [], sortBy = None,
        sortOrder = None, currentPage = 0\<rparr>"
  by (simp add: initial_search_state_def write_url_def read_url_def read_score_def
        updateParam_def get_param_def delete_param_def or_null_def or_string_def
        valid_sort_order_def parseInt_def is_js_whitespace_def is_digit_def digit_value_def
        Let_def)

text \<open>
  The other conditions are needed as well: an empty sort field is deleted from the URL
  and read back as null, and an attribute id with a comma is read back as two ids.
\<close>

lemma url_round_trip_empty_sort_by:
  "sortBy (read_url parseInt
     (write_url number_toString ((initial_search_state parseInt [])\<lparr>sortBy := Some []\<rparr>) [])
     ((initial_search_state parseInt [])\<lparr>sortBy := Some []\<rparr>)) = None"
  by (simp add: initial_search_state_def write_url_def read_url_def updateParam_def
        get_param_def delete_param_def or_null_def or_string_def valid_sort_order_def Let_def
        parseInt_empty parseInt_1)

lemma url_round_trip_comma_attribute:
  "selectedAttributes (read_url parseInt
     (write_url number_toString
        ((initial_search_state parseInt [])\<lparr>selectedAttributes := [''a,b'']\<rparr>) [])
     ((initial_search_state parseInt [])\<lparr>selectedAttributes := [''a,b'']\<rparr>)) = [''a'', ''b'']"
  by (simp add: initial_search_state_def write_url_def read_url_def updateParam_def
        get_param_def delete_param_def or_null_def or_string_def valid_sort_order_def
        split_def Let_def parseInt_empty parseInt_1)

theorem url_round_trip_witness:
  "write_url number_toString
     \<lparr>searchTerm = Some ''shoes'', selectedCategory = None, selectedBrand = Some ''Acme'',
      selectedSustainabilityScore = Some 4, selectedEthicalScore = None,
      selectedDurabilityScore = None, selectedAttributes = [''attr_vegan'', ''attr_recycled''],
      sortBy = Some ''name'', sortOrder = Some desc, currentPage = 2\<rparr> [(''page'', ''7'')]
    = [(''page'', ''2''), (''q'', ''shoes''), (''brand_name'', ''Acme''),
       (''min_sustainability_score'', ''4''), (''attribute_ids'', ''attr_vegan,attr_recycled''),
       (''sort_by'', ''name''), (''sort_order'', ''desc'')]
   \<and> read_url parseInt
        [(''page'', ''2''), (''q'', ''shoes''), (''brand_name'', ''Acme''),
         (''min_sustainability_score'', ''4''), (''attribute_ids'', ''attr_vegan,attr_recycled''),
         (''sort_by'', ''name''), (''sort_order'', ''desc'')]
        \<lparr>searchTerm = Some ''shoes'', selectedCategory = None, selectedBrand = Some ''Acme'',
         selectedSustainabilityScore = Some 4, selectedEthicalScore = None,
         selectedDurabilityScore = None, selectedAttributes = [''attr_vegan'', ''attr_recycled''],
         sortBy = Some ''name'', sortOrder = Some desc, currentPage = 2\<rparr>
     = \<lparr>searchTerm = Some ''shoes'', selectedCategory = None, selectedBrand = Some ''Acme'',
        selectedSustainabilityScore = Some 4, selectedEthicalScore = None,
        selectedDurabilityScore = None, selectedAttributes = [''attr_vegan'', ''attr_recycled''],
        sortBy = Some ''name'', sortOrder = Some desc, currentPage = 2\<rparr>"
proof -
  let ?s = "\<lparr>searchTerm = Some ''shoes'', selectedCategory = None, selectedBrand = Some ''Acme'',
      selectedSustainabilityScore = Some (4 :: int), selectedEthicalScore = None,
      selectedDurabilityScore = None, selectedAttributes = [''attr_vegan'', ''attr_recycled''],
      sortBy = Some ''name'', sortOrder = Some desc, currentPage = 2\<rparr>"
  have digits: "number_toString 2 = ''2''" "number_toString 4 = ''4''"
    by code_simp+
  have url: "write_url number_toString ?s [(''page'', ''7'')]
    = [(''page'', ''2''), (''q'', ''shoes''), (''brand_name'', ''Acme''),
       (''min_sustainability_score'', ''4''), (''attribute_ids'', ''attr_vegan,attr_recycled''),
       (''sort_by'', ''name''), (''sort_order'', ''desc'')]"
    by (simp add: write_url_def updateParam_def delete_param_def digits Let_def)
  have "parseInt [] = None"
    by (simp add: parseInt_def)
  from url_round_trip [of parseInt number_toString ?s "[(''page'', ''7'')]", OF this parseInt_number_toString]
  have "read_url parseInt (write_url number_toString ?s [(''page'', ''7'')]) ?s = ?s"
    by simp
  with url show ?thesis by simp
qed



section \<open>Properties of the API\<close>

lemma inj_number_toString: "inj number_toString"
  by (rule inj_on_inverseI [where g = "\<lambda>s. the (parseInt s)"]) (simp add: parseInt_number_toString)

lemma seed_scores:
  "p_sustainability_score seed_prod_001 = Some (49 / 10)"
  "p_sustainability_score seed_prod_002 = Some (40 / 10)"
  "p_sustainability_score seed_prod_005 = Some (47 / 10)"
  by (simp_all add: seed_prod_001_def seed_prod_002_def seed_prod_005_def)

lemma seed_ids:
  "p_product_id seed_prod_001 = ''prod_001''"
  "p_product_id seed_prod_002 = ''prod_002''"
  "p_product_id seed_prod_005 = ''prod_005''"
  by (simp_all add: seed_prod_001_def seed_prod_002_def seed_prod_005_def)

lemma seed_user_fields:
  "u_email seed_user_abc = ''emily@sustainareview.com''"
  "u_password_hash seed_user_abc = ''hashed_password_emily''"
  by (simp_all add: seed_user_abc_def)

lemma inj_nat_toString: "inj (\<lambda>i :: nat. number_toString (int i))"
proof (rule injI)
  fix x y :: nat
  assume "number_toString (int x) = number_toString (int y)"
  with inj_number_toString have "int x = int y" by (simp add: inj_eq)
  then show "x = y" by simp
qed

lemma buildQueryParams_min_sustainability_score:
  "(''min_sustainability_score'', toString m)
     \<in> set (buildQueryParams toString q c b (Some m) e d attrs sb so page psize)"
  by (simp add: buildQueryParams_def append_param_def Let_def split: option.splits)

lemma matching_products_subset:
  assumes "\<And>sb so rows. set (order_rows store sb so rows) \<subseteq> set rows"
  shows "set (matching_products store db query)
           \<subseteq> {p \<in> set (db_products db). product_matches store db query p}"
  using assms [of "query_sort_by query" "query_sort_order query"
      "filter (product_matches store db query) (db_products db)"]
  by (auto simp: matching_products_def)

text \<open>
  C3. For every request to \<open>GET /products\<close> with a minimum sustainability score \<open>m\<close>, in
  particular 4.5, every product of the returned page has a sustainability score that is
  present and at least \<open>m\<close>: no product with a null score and none below \<open>m\<close> is
  returned. The ordering of the store is only required to return rows it was given.
\<close>

theorem min_sustainability_score_filter:
  assumes order: "\<And>sb so rows. set (order_rows store sb so rows) \<subseteq> set rows"
      and minimum: "query_min_sustainability_score query = Some m"
      and ok: "search_and_filter_products store db query = Response 200 body"
  shows "\<forall>card\<in>set (resp_products body).
           \<exists>v. card_sustainability_score card = Some v \<and> m \<le> v"
proof
  fix card
  assume "card \<in> set (resp_products body)"
  with ok obtain p where p: "p \<in> set (matching_products store db query)" "card = to_card p"
    by (auto simp: search_and_filter_products_def Let_def split: if_splits
             dest!: in_set_takeD in_set_dropD)
  from p(1) matching_products_subset [OF order] have "product_matches store db query p"
    by blast
  with minimum have "score_at_least (Some m) (p_sustainability_score p)"
    by (simp add: product_matches_def)
  then show "\<exists>v. card_sustainability_score card = Some v \<and> m \<le> v"
    by (simp add: score_at_least_def p(2) to_card_def split: option.splits)
qed

theorem min_sustainability_score_filter_witness:
  "search_and_filter_products
     \<lparr>text_matches = (\<lambda>q p. True), attributes_match = (\<lambda>wanted present. set wanted \<subseteq> set present),
      order_rows = (\<lambda>sb so rows. rows)\<rparr>
     seed_database
     \<lparr>query_q = None, query_category_id = None, query_brand_name = None,
      query_min_sustainability_score = Some (9 / 2), query_min_ethical_score = None,
      query_min_durability_score = None, query_attribute_ids = [], query_sort_by = None,
      query_sort_order = None, query_page = None, query_pageSize = None\<rparr>
   = Response 200
       \<lparr>resp_products = [to_card seed_prod_001, to_card seed_prod_005],
        resp_pagination = \<lparr>pagination_currentPage = 1, pagination_pageSize = 20,
          pagination_totalPages = 1, pagination_totalProducts = 2\<rparr>\<rparr>
   \<and> card_sustainability_score (to_card seed_prod_001) = Some (49 / 10)
   \<and> card_sustainability_score (to_card seed_prod_005) = Some (47 / 10)
   \<and> p_sustainability_score seed_prod_002 = Some 4"
proof -
  let ?store = "\<lparr>text_matches = (\<lambda>q p. True),
      attributes_match = (\<lambda>wanted present. set wanted \<subseteq> set present),
      order_rows = (\<lambda>sb so rows. rows)\<rparr>"
  let ?query = "\<lparr>query_q = None, query_category_id = None, query_brand_name = None,
      query_min_sustainability_score = Some (9 / 2), query_min_ethical_score = None,
      query_min_durability_score = None, query_attribute_ids = [], query_sort_by = None,
      query_sort_order = None, query_page = None, query_pageSize = None\<rparr>"
  have page: "search_and_filter_products ?store seed_database ?query
      = Response 200
          \<lparr>resp_products = [to_card seed_prod_001, to_card seed_prod_005],
           resp_pagination = \<lparr>pagination_currentPage = 1, pagination_pageSize = 20,
             pagination_totalPages = 1, pagination_totalProducts = 2\<rparr>\<rparr>"
    by (simp add: search_and_filter_products_def matching_products_def product_matches_def
          score_at_least_def seed_database_def seed_scores Let_def)
  have order: "\<And>sb so rows. set (order_rows ?store sb so rows) \<subseteq> set rows"
    by simp
  have minimum: "query_min_sustainability_score ?query = Some (9 / 2)"
    by simp
  from min_sustainability_score_filter [OF order minimum page] page
  show ?thesis
    by (simp add: to_card_def seed_scores)
qed

lemma matching_products_distinct:
  assumes perm: "\<And>sb so rows. mset (order_rows store sb so rows) = mset rows"
      and pk: "distinct (map p_product_id (db_products db))"
  shows "distinct (map p_product_id (matching_products store db query))"
proof -
  have "mset (map p_product_id (matching_products store db query))
          = mset (map p_product_id (filter (product_matches store db query) (db_products db)))"
    unfolding matching_products_def mset_map [symmetric] using perm by simp
  moreover have "distinct (map p_product_id (filter (product_matches store db query) (db_products db)))"
    using pk by (rule distinct_map_filter)
  ultimately show ?thesis
    using mset_eq_imp_distinct_iff by blast
qed

text \<open>
  C4. On a fixed catalog whose product ids are unique, with an ordering of the store
  that permutes the rows it is given, and for a query with at least 20 matching
  products: page 1 and page 2 with page size 10 are both answered with 200; page 1 holds
  the first 10 matching products and page 2 the next 10, in the order of the query, and
  no product of page 2 is on page 1.
\<close>

theorem second_page_disjoint_from_first:
  assumes perm: "\<And>sb so rows. mset (order_rows store sb so rows) = mset rows"
      and pk: "distinct (map p_product_id (db_products db))"
      and enough: "20 \<le> length (matching_products store db query)"
  shows "\<exists>first second.
           search_and_filter_products store db (query\<lparr>query_page := Some 1, query_pageSize := Some 10\<rparr>)
             = Response 200 first
         \<and> search_and_filter_products store db (query\<lparr>query_page := Some 2, query_pageSize := Some 10\<rparr>)
             = Response 200 second
         \<and> resp_products first = map to_card (take 10 (matching_products store db query))
         \<and> resp_products second = map to_card (take 10 (drop 10 (matching_products store db query)))
         \<and> length (resp_products first) = 10 \<and> length (resp_products second) = 10
         \<and> set (map card_product_id (resp_products first))
             \<inter> set (map card_product_id (resp_products second)) = {}"
proof -
  let ?L = "matching_products store db query"
  have same: "\<And>pg sz. matching_products store db (query\<lparr>query_page := pg, query_pageSize := sz\<rparr>) = ?L"
    by (simp add: matching_products_def product_matches_def [abs_def])
  have d: "distinct (map p_product_id ?L)"
    using perm pk by (rule matching_products_distinct)
  have "set (take 10 (map p_product_id ?L)) \<inter> set (drop 10 (map p_product_id ?L)) = {}"
    using d by (rule set_take_disj_set_drop_if_distinct) simp
  moreover have "set (take 10 (drop 10 (map p_product_id ?L))) \<subseteq> set (drop 10 (map p_product_id ?L))"
    by (rule set_take_subset)
  ultimately have "set (take 10 (map p_product_id ?L))
      \<inter> set (take 10 (drop 10 (map p_product_id ?L))) = {}"
    by blast
  then have disj: "set (map p_product_id (take 10 ?L))
      \<inter> set (map p_product_id (take 10 (drop 10 ?L))) = {}"
    by (simp only: take_map drop_map)
  show ?thesis
    using enough disj
    by (simp add: search_and_filter_products_def Let_def same image_image to_card_def)
qed

theorem second_page_disjoint_from_first_witness:
  "\<exists>first second.
     search_and_filter_products
       \<lparr>text_matches = (\<lambda>q p. True), attributes_match = (\<lambda>wanted present. True),
        order_rows = (\<lambda>sb so rows. rows)\<rparr>
       (seed_database\<lparr>db_products :=
          map (\<lambda>i. seed_prod_001\<lparr>p_product_id := number_toString (int i)\<rparr>) [0..<25]\<rparr>)
       \<lparr>query_q = None, query_category_id = None, query_brand_name = None,
        query_min_sustainability_score = None, query_min_ethical_score = None,
        query_min_durability_score = None, query_attribute_ids = [], query_sort_by = None,
        query_sort_order = None, query_page = Some 1, query_pageSize = Some 10\<rparr>
       = Response 200 first
   \<and> search_and_filter_products
       \<lparr>text_matches = (\<lambda>q p. True), attributes_match = (\<lambda>wanted present. True),
        order_rows = (\<lambda>sb so rows. rows)\<rparr>
       (seed_database\<lparr>db_products :=
          map (\<lambda>i. seed_prod_001\<lparr>p_product_id := number_toString (int i)\<rparr>) [0..<25]\<rparr>)
       \<lparr>query_q = None, query_category_id = None, query_brand_name = None,
        query_min_sustainability_score = None, query_min_ethical_score = None,
        query_min_durability_score = None, query_attribute_ids = [], query_sort_by = None,
        query_sort_order = None, query_page = Some 2, query_pageSize = Some 10\<rparr>
       = Response 200 second
   \<and> map card_product_id (resp_products first) = map (\<lambda>i. number_toString (int i)) [0..<10]
   \<and> map card_product_id (resp_products second) = map (\<lambda>i. number_toString (int i)) [10..<20]
   \<and> set (map card_product_id (resp_products first))
       \<inter> set (map card_product_id (resp_products second)) = {}"
proof -
  let ?store = "\<lparr>text_matches = (\<lambda>q p. True), attributes_match = (\<lambda>wanted present. True),
        order_rows = (\<lambda>sb so rows. rows)\<rparr>"
  let ?rows = "map (\<lambda>i. seed_prod_001\<lparr>p_product_id := number_toString (int i)\<rparr>) [0..<25]"
  let ?db = "seed_database\<lparr>db_products := ?rows\<rparr>"
  let ?query = "\<lparr>query_q = None, query_category_id = None, query_brand_name = None,
        query_min_sustainability_score = None, query_min_ethical_score = None,
        query_min_durability_score = None, query_attribute_ids = [], query_sort_by = None,
        query_sort_order = None, query_page = Some 1, query_pageSize = Some 10\<rparr>"
  have matching: "matching_products ?store ?db ?query = ?rows"
    by (simp add: matching_products_def product_matches_def score_at_least_def)
  have perm: "\<And>sb so rows. mset (order_rows ?store sb so rows) = mset rows"
    by simp
  have pk: "distinct (map p_product_id (db_products ?db))"
    using inj_nat_toString by (simp add: distinct_map comp_def inj_on_def inj_def)
  have enough: "20 \<le> length (matching_products ?store ?db ?query)"
    by (simp add: matching)
  from second_page_disjoint_from_first [OF perm pk enough]
  obtain first second where
    "search_and_filter_products ?store ?db (?query\<lparr>query_page := Some 1, query_pageSize := Some 10\<rparr>)
       = Response 200 first"
    "search_and_filter_products ?store ?db (?query\<lparr>query_page := Some 2, query_pageSize := Some 10\<rparr>)
       = Response 200 second"
    "resp_products first = map to_card (take 10 (matching_products ?store ?db ?query))"
    "resp_products second = map to_card (take 10 (drop 10 (matching_products ?store ?db ?query)))"
    "set (map card_product_id (resp_products first))
       \<inter> set (map card_product_id (resp_products second)) = {}"
    by blast
  then show ?thesis
    by (intro exI [of _ first] exI [of _ second])
       (simp add: matching take_map drop_map to_card_def comp_def)
qed

text \<open>
  C5. A login request with an email and a password, for an email that is registered and
  a password that does not match the stored one, is answered with status 401 and an
  \<open>{error: string}\<close> body; the response carries no access token.
\<close>

theorem wrong_password_is_unauthorized:
  assumes "login_email request = Some email"
      and "login_password request = Some password"
      and "find (\<lambda>u. u_email u = email) (db_users db) = Some user"
      and "\<not> password_matches password (u_password_hash user)"
  shows "(\<exists>message. login_user password_matches issue_token db request = ErrorResponse 401 message)
       \<and> status_code (login_user password_matches issue_token db request) = 401
       \<and> issued_token (login_user password_matches issue_token db request) = None"
  using assms by (simp add: login_user_def)

theorem wrong_password_is_unauthorized_witness:
  "login_user (\<lambda>password hash. hash = ''hashed_'' @ password) (\<lambda>user. (''token_'' @ u_user_id user, 3600))
     seed_database
     \<lparr>login_email = Some ''emily@sustainareview.com'', login_password = Some ''letmein''\<rparr>
     = ErrorResponse 401 ''Invalid email or password.''
   \<and> issued_token
       (login_user (\<lambda>password hash. hash = ''hashed_'' @ password)
          (\<lambda>user. (''token_'' @ u_user_id user, 3600)) seed_database
          \<lparr>login_email = Some ''emily@sustainareview.com'', login_password = Some ''letmein''\<rparr>) = None"
proof -
  let ?request = "\<lparr>login_email = Some ''emily@sustainareview.com'', login_password = Some ''letmein''\<rparr>"
  have user: "find (\<lambda>u. u_email u = ''emily@sustainareview.com'') (db_users seed_database)
                = Some seed_user_abc"
    by (simp add: seed_database_def seed_user_fields)
  have wrong: "\<not> (\<lambda>password hash. hash = ''hashed_'' @ password) ''letmein'' (u_password_hash seed_user_abc)"
    by (simp add: seed_user_fields)
  have email: "login_email ?request = Some ''emily@sustainareview.com''"
    and password: "login_password ?request = Some ''letmein''"
    by simp_all
  from wrong_password_is_unauthorized
    [where password_matches = "\<lambda>password hash. hash = ''hashed_'' @ password"
       and issue_token = "\<lambda>user. (''token_'' @ u_user_id user, 3600)",
     OF email password user wrong]
  show ?thesis
    by (simp add: login_user_def user seed_user_fields)
qed

text \<open>
  C6. If a user's bookmark of a product is answered with 201, then the same bookmark by
  the same user, at any later time, is answered with 409 and an \<open>{error: string}\<close> body
  and leaves the database, and with it the user's bookmarks, as it was; the product is
  among them.
\<close>

theorem second_bookmark_conflicts:
  assumes "bookmark_product now db (Some user_id) product_id = (Response 201 message, db')"
  shows "(\<exists>e. bookmark_product now' db' (Some user_id) product_id = (ErrorResponse 409 e, db'))
       \<and> bookmarks_of (snd (bookmark_product now' db' (Some user_id) product_id)) user_id
           = bookmarks_of db' user_id
       \<and> product_id \<in> set (bookmarks_of db' user_id)"
proof -
  from assms have known: "product_id \<in> set (map p_product_id (db_products db))"
    and db': "db' = db\<lparr>db_user_bookmarks := db_user_bookmarks db @
                [\<lparr>b_user_id = user_id, b_product_id = product_id, b_bookmarked_at = now\<rparr>]\<rparr>"
    by (auto simp: bookmark_product_def split: if_splits)
  have products: "db_products db' = db_products db"
    by (simp add: db')
  have present: "\<exists>b\<in>set (db_user_bookmarks db'). b_user_id b = user_id \<and> b_product_id b = product_id"
    by (simp add: db')
  have second: "bookmark_product now' db' (Some user_id) product_id
                  = (ErrorResponse 409 ''Product is already bookmarked.'', db')"
    using known present by (simp add: bookmark_product_def products)
  have "product_id \<in> set (bookmarks_of db' user_id)"
    by (simp add: bookmarks_of_def db')
  with second show ?thesis by simp
qed

theorem second_bookmark_conflicts_witness:
  "fst (bookmark_product ''2023-11-02 09:00:00'' seed_database (Some ''user_abc'') ''prod_002'')
     = Response 201 ''Product bookmarked successfully.''
   \<and> bookmark_product ''2023-11-02 09:00:05''
       (snd (bookmark_product ''2023-11-02 09:00:00'' seed_database (Some ''user_abc'') ''prod_002''))
       (Some ''user_abc'') ''prod_002''
     = (ErrorResponse 409 ''Product is already bookmarked.'',
        snd (bookmark_product ''2023-11-02 09:00:00'' seed_database (Some ''user_abc'') ''prod_002''))
   \<and> bookmarks_of
       (snd (bookmark_product ''2023-11-02 09:00:00'' seed_database (Some ''user_abc'') ''prod_002''))
       ''user_abc'' = [''prod_001'', ''prod_002'']"
proof -
  have first: "bookmark_product ''2023-11-02 09:00:00'' seed_database (Some ''user_abc'') ''prod_002''
     = (Response 201 ''Product bookmarked successfully.'',
        seed_database\<lparr>db_user_bookmarks := db_user_bookmarks seed_database @
          [\<lparr>b_user_id = ''user_abc'', b_product_id = ''prod_002'',
            b_bookmarked_at = ''2023-11-02 09:00:00''\<rparr>]\<rparr>)"
    by (simp add: bookmark_product_def seed_database_def seed_ids)
  from second_bookmark_conflicts [OF first, of "''2023-11-02 09:00:05''"]
  show ?thesis
    by (auto simp: first bookmarks_of_def seed_database_def bookmark_product_def seed_ids)
qed

text \<open>
  C7. Every review that \<open>POST /products/{product_id}/reviews\<close> accepts with 201 is
  persisted as one new row of \<open>reviews\<close>, with the identifier that the response returns
  and with \<open>moderation_status\<close> pending, so neither approved nor rejected.
\<close>

theorem accepted_review_is_pending:
  assumes "submit_review_for_product env db caller product_id request = (Response 201 body, db')"
  shows "\<exists>row. db_reviews db' = db_reviews db @ [row]
           \<and> r_review_id row = created_review_id body
           \<and> r_moderation_status row = pending
           \<and> r_moderation_status row \<noteq> approved \<and> r_moderation_status row \<noteq> rejected"
  using assms
  by (auto simp: submit_review_for_product_def split: option.splits if_splits)

theorem accepted_review_is_pending_witness:
  "fst (submit_review_for_product
          \<lparr>env_now = ''2023-11-02 09:00:00'', env_review_id = ''rev_011'',
           env_photo_id = (\<lambda>f. ''photo_'' @ file_name f),
           env_store_photo = (\<lambda>f. ''/uploads/'' @ file_name f)\<rparr>
          seed_database (Some ''user_abc'') ''prod_002''
          \<lparr>req_title = Some ''Solid boots'', req_body = Some ''Held up for a year.'',
           req_overall_rating = Some 4, req_sustainability_rating = None,
           req_ethical_rating = Some 5, req_durability_rating = None, req_photos = []\<rparr>)
     = Response 201 \<lparr>created_review_id = ''rev_011'',
         created_message = ''Review submitted successfully and is pending moderation.''\<rparr>
   \<and> map (\<lambda>row. (r_review_id row, r_moderation_status row))
       (db_reviews (snd (submit_review_for_product
          \<lparr>env_now = ''2023-11-02 09:00:00'', env_review_id = ''rev_011'',
           env_photo_id = (\<lambda>f. ''photo_'' @ file_name f),
           env_store_photo = (\<lambda>f. ''/uploads/'' @ file_name f)\<rparr>
          seed_database (Some ''user_abc'') ''prod_002''
          \<lparr>req_title = Some ''Solid boots'', req_body = Some ''Held up for a year.'',
           req_overall_rating = Some 4, req_sustainability_rating = None,
           req_ethical_rating = Some 5, req_durability_rating = None, req_photos = []\<rparr>)))
     = [(''rev_011'', pending)]"
proof -
  let ?env = "\<lparr>env_now = ''2023-11-02 09:00:00'', env_review_id = ''rev_011'',
           env_photo_id = (\<lambda>f. ''photo_'' @ file_name f),
           env_store_photo = (\<lambda>f. ''/uploads/'' @ file_name f)\<rparr>"
  let ?request = "\<lparr>req_title = Some ''Solid boots'', req_body = Some ''Held up for a year.'',
           req_overall_rating = Some 4, req_sustainability_rating = None,
           req_ethical_rating = Some 5, req_durability_rating = None, req_photos = []\<rparr>"
  obtain db' where accepted:
    "submit_review_for_product ?env seed_database (Some ''user_abc'') ''prod_002'' ?request
       = (Response 201 \<lparr>created_review_id = ''rev_011'',
            created_message = ''Review submitted successfully and is pending moderation.''\<rparr>, db')"
    by (simp add: submit_review_for_product_def valid_review_def rating_in_range_def
          seed_database_def seed_ids)
  from accepted_review_is_pending [OF accepted]
  obtain row where "db_reviews db' = db_reviews seed_database @ [row]"
    "r_review_id row = ''rev_011''" "r_moderation_status row = pending"
    by auto
  moreover have "db_reviews seed_database = []"
    by (simp add: seed_database_def)
  ultimately show ?thesis
    unfolding accepted by simp
qed

end
